theory Spec2Isabelle
  imports Complex_Main "HOL-Library.Char_ord" "HOL-Library.List_Lexorder"
begin

section \<open>Python values and library objects\<close>

text \<open>
  The notebook is glue code over numpy, scikit-learn and Keras. Library values are modelled
  as far as the notebook inspects them. What a library computes from the file system, the
  network or training is a field of an environment record (\<open>filesystem\<close>, \<open>keras\<close>), and a
  call that can raise returns the exception as a value. A Python float is a \<open>real\<close>: the
  notebook passes its floats on and prints them, and never computes with them.
\<close>

datatype py_error = IndexError | ValueError | TypeError | AttributeError | RuntimeError | OSError

text \<open>
  A numpy array along its first axis: \<open>rows\<close> are the entries of axis 0 and
  \<open>row_shape\<close> is \<open>shape[1:]\<close>, which numpy knows also when there are no rows.
\<close>

record 'a ndarray =
  rows :: "'a list"
  row_shape :: "nat list"

definition shape :: "'a ndarray \<Rightarrow> nat list" where
  "shape a = length (rows a) # row_shape a"

text \<open>\<^verbatim>\<open>a[:k]\<close> on the first axis.\<close>

definition slice_to :: "nat \<Rightarrow> 'a ndarray \<Rightarrow> 'a ndarray" where
  "slice_to k a = a\<lparr>rows := take k (rows a)\<rparr>"

text \<open>\<^verbatim>\<open>np.array(xs)\<close> of a flat list.\<close>

definition np_array :: "'a list \<Rightarrow> 'a ndarray" where
  "np_array xs = \<lparr>rows = xs, row_shape = []\<rparr>"

text \<open>The \<^verbatim>\<open>Bunch\<close> of \<^verbatim>\<open>sklearn.datasets.load_files\<close>: one class per subdirectory,
  \<open>target\<close> holding for every file the index of its class in \<open>target_names\<close>.\<close>

record bunch =
  filenames :: "string list"
  target :: "nat list"
  target_names :: "string list"

record filesystem =
  load_files :: "string \<Rightarrow> py_error + bunch"
  glob :: "string \<Rightarrow> string list"

text \<open>
  \<^verbatim>\<open>keras.utils.np_utils.to_categorical(y, num_classes)\<close>: a zero matrix of shape
  \<open>(len(y), num_classes)\<close> in which entry \<open>(i, y[i])\<close> is set to 1. The indexed
  assignment raises IndexError when a class index is outside the row; a falsy
  \<open>num_classes\<close> is replaced by \<open>max(y) + 1\<close>, and \<open>max\<close> of nothing raises ValueError.
\<close>

definition one_hot :: "nat \<Rightarrow> nat \<Rightarrow> real list" where
  "one_hot n t = (replicate n 0)[t := 1]"

definition categorical :: "nat list \<Rightarrow> nat \<Rightarrow> py_error + real list ndarray" where
  "categorical y n =
     (if \<exists>t \<in> set y. n \<le> t then Inl IndexError
      else Inr \<lparr>rows = map (one_hot n) y, row_shape = [n]\<rparr>)"

definition to_categorical :: "nat list \<Rightarrow> nat \<Rightarrow> py_error + real list ndarray" where
  "to_categorical y num_classes =
     (if num_classes = 0
      then (if y = [] then Inl ValueError else categorical y (Max (set y) + 1))
      else categorical y num_classes)"

text \<open>\<^verbatim>\<open>str.lower()\<close>, on the ASCII letters.\<close>

definition lower_char :: "char \<Rightarrow> char" where
  "lower_char c =
     (case map_of (zip ''ABCDEFGHIJKLMNOPQRSTUVWXYZ'' ''abcdefghijklmnopqrstuvwxyz'') c of
        Some d \<Rightarrow> d
      | None \<Rightarrow> c)"

definition str_lower :: "string \<Rightarrow> string" where
  "str_lower s = map lower_char s"

text \<open>What \<^verbatim>\<open>print\<close> receives: a format string with its arguments, or a value shown by
  its \<^verbatim>\<open>repr\<close>. An object without a \<^verbatim>\<open>__repr__\<close> of its own shows its class and identity.\<close>

datatype pyval =
    PyStr string
  | PyFloat real
  | PyInt int
  | PyObject string nat
  | PyTuple "pyval list"
  | PyList "pyval list"

datatype printed = Format string "pyval list" | Repr pyval

subsection \<open>Keras objects\<close>

type_synonym addr = nat

datatype pyarg = FloatArg real | BoolArg bool

record optimizer =
  opt_class :: string
  kwargs :: "(string \<times> pyarg) list"

text \<open>A layer object: what it is, and the flag the notebook writes.\<close>

datatype 'c layer_cls = Application_layer 'c | GlobalAveragePooling2D | Dense nat string

record 'c layer =
  cls :: "'c layer_cls"
  trainable :: bool

text \<open>The model returned by \<^verbatim>\<open>InceptionV3(include_top, weights, input_shape)\<close>, with the
  addresses of its layer objects.\<close>

record base_model =
  include_top :: bool
  weights :: "string option"
  input_shape :: "nat list"
  layers :: "addr list"

text \<open>A symbolic tensor: the input or output of a base model, or the result of calling the
  layer at an address on a tensor.\<close>

datatype tensor = Input_of base_model | Output_of base_model | Call addr tensor

record model =
  inputs :: tensor
  outputs :: tensor
  compiled :: "(optimizer \<times> string \<times> string list) option"

text \<open>The \<^verbatim>\<open>History\<close> object returned by \<^verbatim>\<open>fit\<close>: its identity and its
  \<^verbatim>\<open>history\<close> dictionary (per-epoch values under \<^verbatim>\<open>val_loss\<close>, \<^verbatim>\<open>loss\<close>, ...).\<close>

record keras_history =
  object_id :: nat
  history :: "(string \<times> real list) list"

record 'x fit_args =
  fit_x :: "'x ndarray"
  fit_y :: "real list ndarray"
  fit_validation_data :: "'x ndarray \<times> real list ndarray"
  fit_epochs :: nat
  fit_batch_size :: nat
  fit_verbose :: nat

datatype 'x call =
    Compile_call addr optimizer string "string list"
  | Fit_call addr "'x fit_args"

text \<open>What the library does with the notebook's calls: the layers \<^verbatim>\<open>InceptionV3\<close> creates,
  whether an optimizer constructor or \<^verbatim>\<open>compile\<close> raises, and the outcome of \<^verbatim>\<open>fit\<close> on
  the current layer objects and model object.\<close>

record ('c, 'x) keras =
  InceptionV3 :: "bool \<Rightarrow> string option \<Rightarrow> nat list \<Rightarrow> py_error + 'c layer list"
  optimizer_init :: "optimizer \<Rightarrow> py_error option"
  compile :: "'c layer list \<Rightarrow> model \<Rightarrow> optimizer \<Rightarrow> string \<Rightarrow> string list \<Rightarrow> py_error option"
  fit :: "'c layer list \<Rightarrow> model \<Rightarrow> 'x fit_args \<Rightarrow> py_error + keras_history"

subsection \<open>The state of the notebook\<close>

text \<open>
  The global names the cells assign, the objects the library has allocated (a layer or a
  model is referred to by its index), the calls of \<^verbatim>\<open>compile\<close> and \<^verbatim>\<open>fit\<close> in order, the
  lines printed by the notebook's own \<^verbatim>\<open>print\<close> calls, and \<open>entered\<close>, the names of the
  notebook's functions in the order they were called. A function returns its result, or the
  exception that ended it, together with the state it left.
\<close>

record ('c, 'x) notebook =
  train_files :: "string ndarray"
  train_targets :: "real list ndarray"
  valid_files :: "string ndarray"
  valid_targets :: "real list ndarray"
  test_files :: "string ndarray"
  test_targets :: "real list ndarray"
  dog_names :: "string list"
  num_classes :: nat
  train_tensors :: "'x ndarray"
  valid_tensors :: "'x ndarray"
  test_tensors :: "'x ndarray"
  epochs :: nat
  solvers :: "string list"
  learning_rates :: "real list"
  results :: "(string \<times> real \<times> keras_history) list"
  layer_objs :: "'c layer list"
  model_objs :: "model list"
  calls :: "'x call list"
  stdout :: "printed list"
  entered :: "string list"

definition enter :: "string \<Rightarrow> ('c, 'x) notebook \<Rightarrow> ('c, 'x) notebook" where
  "enter f s = s\<lparr>entered := entered s @ [f]\<rparr>"

definition print :: "printed \<Rightarrow> ('c, 'x) notebook \<Rightarrow> ('c, 'x) notebook" where
  "print line s = s\<lparr>stdout := stdout s @ [line]\<rparr>"

section \<open>Cell 1: the dataset\<close>

definition load_dataset ::
  "filesystem \<Rightarrow> string \<Rightarrow> ('c, 'x) notebook \<Rightarrow>
     (py_error + (string ndarray \<times> real list ndarray)) \<times> ('c, 'x) notebook" where
  "load_dataset F path s0 =
     (let s = enter ''load_dataset'' s0 in
      case load_files F path of
        Inl e \<Rightarrow> (Inl e, s)
      | Inr data \<Rightarrow>
          let dog_files = np_array (filenames data) in
          (case to_categorical (target data) 133 of
             Inl e \<Rightarrow> (Inl e, s)
           | Inr dog_targets \<Rightarrow> (Inr (dog_files, dog_targets), s)))"

text \<open>\<^verbatim>\<open>item[20:-1]\<close>\<close>

definition slice_20_minus1 :: "string \<Rightarrow> string" where
  "slice_20_minus1 item = drop 20 (butlast item)"

text \<open>\<^verbatim>\<open>np.hstack\<close> of flat arrays.\<close>

definition hstack :: "'a ndarray list \<Rightarrow> 'a ndarray" where
  "hstack as = np_array (concat (map rows as))"

definition cell_1 :: "filesystem \<Rightarrow> ('c, 'x) notebook \<Rightarrow> (py_error + unit) \<times> ('c, 'x) notebook" where
  "cell_1 F s0 =
     (case load_dataset F ''dogImages/train'' s0 of
        (Inl e, s1) \<Rightarrow> (Inl e, s1)
      | (Inr (f1, t1), s1) \<Rightarrow>
     (case load_dataset F ''dogImages/valid'' (s1\<lparr>train_files := f1, train_targets := t1\<rparr>) of
        (Inl e, s2) \<Rightarrow> (Inl e, s2)
      | (Inr (f2, t2), s2) \<Rightarrow>
     (case load_dataset F ''dogImages/test'' (s2\<lparr>valid_files := f2, valid_targets := t2\<rparr>) of
        (Inl e, s3) \<Rightarrow> (Inl e, s3)
      | (Inr (f3, t3), s3) \<Rightarrow>
          let s4 = s3\<lparr>test_files := f3, test_targets := t3\<rparr>;
              s5 = s4\<lparr>dog_names := map slice_20_minus1 (sort (glob F ''dogImages/train/*/''))\<rparr>;
              s6 = s5\<lparr>num_classes := length (dog_names s5)\<rparr>;
              s7 = print (Format ''There are %d total dog categories.''
                            [PyInt (int (length (dog_names s6)))]) s6;
              s8 = print (Format (''There are %s total dog images.'' @ [CHR 0x0A])
                            [PyInt (int (length (rows (hstack
                               [train_files s7, valid_files s7, test_files s7]))))]) s7;
              s9 = print (Format ''There are %d training dog images.''
                            [PyInt (int (length (rows (train_files s8))))]) s8;
              s10 = print (Format ''There are %d validation dog images.''
                            [PyInt (int (length (rows (valid_files s9))))]) s9;
              s11 = print (Format ''There are %d test dog images.''
                            [PyInt (int (length (rows (test_files s10))))]) s10
          in (Inr (), s11))))"

section \<open>Cell 2: the tensors\<close>

text \<open>Cell 2 decodes the image files into the arrays \<open>train_tensors\<close>, \<open>valid_tensors\<close> and
  \<open>test_tensors\<close>, one row of shape \<open>(224, 224, 3)\<close> per file. The later cells only slice
  them and read their shape, so the three names of the state stand for whatever it produced.\<close>

section \<open>Cells 3 to 5: the three model builders\<close>

text \<open>\<^verbatim>\<open>InceptionV3(include_top=.., weights=.., input_shape=..)\<close>: the layer objects the library
  creates are allocated after the existing ones.\<close>

definition new_InceptionV3 ::
  "('c, 'x) keras \<Rightarrow> bool \<Rightarrow> string option \<Rightarrow> nat list \<Rightarrow> ('c, 'x) notebook \<Rightarrow>
     (py_error + base_model) \<times> ('c, 'x) notebook" where
  "new_InceptionV3 K with_top w shp s =
     (case InceptionV3 K with_top w shp of
        Inl e \<Rightarrow> (Inl e, s)
      | Inr ls \<Rightarrow>
          (Inr \<lparr>include_top = with_top, weights = w, input_shape = shp,
                 layers = [length (layer_objs s) ..< length (layer_objs s) + length ls]\<rparr>,
           s\<lparr>layer_objs := layer_objs s @ ls\<rparr>))"

text \<open>\<^verbatim>\<open>L(..)(x)\<close>: a new layer object, trainable as every new Keras layer is, called on \<open>x\<close>.\<close>

definition apply_layer ::
  "'c layer_cls \<Rightarrow> tensor \<Rightarrow> ('c, 'x) notebook \<Rightarrow> tensor \<times> ('c, 'x) notebook" where
  "apply_layer c x s =
     (Call (length (layer_objs s)) x,
      s\<lparr>layer_objs := layer_objs s @ [\<lparr>cls = c, trainable = True\<rparr>]\<rparr>)"

text \<open>\<^verbatim>\<open>Model(inputs=.., outputs=..)\<close>: a new, uncompiled model object.\<close>

definition new_Model :: "tensor \<Rightarrow> tensor \<Rightarrow> ('c, 'x) notebook \<Rightarrow> addr \<times> ('c, 'x) notebook" where
  "new_Model i out s =
     (length (model_objs s),
      s\<lparr>model_objs := model_objs s @ [\<lparr>inputs = i, outputs = out, compiled = None\<rparr>]\<rparr>)"

definition create_scratch_model ::
  "('c, 'x) keras \<Rightarrow> ('c, 'x) notebook \<Rightarrow> (py_error + addr option) \<times> ('c, 'x) notebook" where
  "create_scratch_model K s0 =
     (let s = enter ''create_scratch_model'' s0 in
      case new_InceptionV3 K False None (tl (shape (train_tensors s))) s of
        (Inl e, s1) \<Rightarrow> (Inl e, s1)
      | (Inr base_scratch_model, s1) \<Rightarrow>
          let x = Output_of base_scratch_model;
              (x, s2) = apply_layer GlobalAveragePooling2D x s1;
              (x, s3) = apply_layer (Dense 512 ''relu'') x s2;
              (scratch_predictions, s4) = apply_layer (Dense (num_classes s3) ''softmax'') x s3;
              (scratch_model, s5) = new_Model (Input_of base_scratch_model) scratch_predictions s4
          in (Inr None, s5))"

definition create_finetune_model ::
  "('c, 'x) keras \<Rightarrow> ('c, 'x) notebook \<Rightarrow> (py_error + addr option) \<times> ('c, 'x) notebook" where
  "create_finetune_model K s0 =
     (let s = enter ''create_finetune_model'' s0 in
      case new_InceptionV3 K False (Some ''imagenet'') (tl (shape (train_tensors s))) s of
        (Inl e, s1) \<Rightarrow> (Inl e, s1)
      | (Inr base_finetune_model, s1) \<Rightarrow>
          let x = Output_of base_finetune_model;
              (x, s2) = apply_layer GlobalAveragePooling2D x s1;
              (x, s3) = apply_layer (Dense 512 ''relu'') x s2;
              (finetune_predictions, s4) = apply_layer (Dense (num_classes s3) ''softmax'') x s3;
              (m, s5) = new_Model (Input_of base_finetune_model) finetune_predictions s4
          in (Inr (Some m), s5))"

text \<open>\<^verbatim>\<open>for layer in base_frozen_model.layers: layer.trainable = False\<close>\<close>

fun freeze :: "addr list \<Rightarrow> 'c layer list \<Rightarrow> 'c layer list" where
  "freeze [] objs = objs"
| "freeze (l # rest) objs = freeze rest (objs[l := (objs ! l)\<lparr>trainable := False\<rparr>])"

definition create_frozen_model ::
  "('c, 'x) keras \<Rightarrow> ('c, 'x) notebook \<Rightarrow> (py_error + addr option) \<times> ('c, 'x) notebook" where
  "create_frozen_model K s0 =
     (let s = enter ''create_frozen_model'' s0 in
      case new_InceptionV3 K False (Some ''imagenet'') (tl (shape (train_tensors s))) s of
        (Inl e, s1) \<Rightarrow> (Inl e, s1)
      | (Inr base_frozen_model, s1) \<Rightarrow>
          let x = Output_of base_frozen_model;
              (x, s2) = apply_layer GlobalAveragePooling2D x s1;
              (x, s3) = apply_layer (Dense 512 ''relu'') x s2;
              (frozen_predictions, s4) = apply_layer (Dense (num_classes s3) ''softmax'') x s3;
              (frozen_model, s5) = new_Model (Input_of base_frozen_model) frozen_predictions s4;
              s6 = s5\<lparr>layer_objs := freeze (layers base_frozen_model) (layer_objs s5)\<rparr>
          in (Inr None, s6))"

text \<open>Reading a model object: the base model a tensor rests on, and the layers called on top
  of that base, in the order they were called.\<close>

fun tensor_base :: "tensor \<Rightarrow> base_model" where
  "tensor_base (Input_of b) = b"
| "tensor_base (Output_of b) = b"
| "tensor_base (Call a t) = tensor_base t"

fun tensor_head :: "tensor \<Rightarrow> addr list" where
  "tensor_head (Input_of b) = []"
| "tensor_head (Output_of b) = []"
| "tensor_head (Call a t) = tensor_head t @ [a]"

text \<open>What a builder allocates in state \<open>s\<close> when the library answers its
  \<^verbatim>\<open>InceptionV3\<close> call for weights \<open>w\<close> with the layers \<open>ls\<close>: the base model, the three
  layers called on its output, and the model object.\<close>

definition built_base :: "string option \<Rightarrow> ('c, 'x) notebook \<Rightarrow> 'c layer list \<Rightarrow> base_model" where
  "built_base w s ls =
     \<lparr>include_top = False, weights = w, input_shape = row_shape (train_tensors s),
      layers = [length (layer_objs s) ..< length (layer_objs s) + length ls]\<rparr>"

definition built_head :: "('c, 'x) notebook \<Rightarrow> 'c layer list" where
  "built_head s =
     [\<lparr>cls = GlobalAveragePooling2D, trainable = True\<rparr>,
      \<lparr>cls = Dense 512 ''relu'', trainable = True\<rparr>,
      \<lparr>cls = Dense (num_classes s) ''softmax'', trainable = True\<rparr>]"

definition built_model :: "string option \<Rightarrow> ('c, 'x) notebook \<Rightarrow> 'c layer list \<Rightarrow> model" where
  "built_model w s ls =
     \<lparr>inputs = Input_of (built_base w s ls),
      outputs = Call (length (layer_objs s) + length ls + 2)
                  (Call (length (layer_objs s) + length ls + 1)
                    (Call (length (layer_objs s) + length ls)
                      (Output_of (built_base w s ls)))),
      compiled = None\<rparr>"

text \<open>Reading what a builder has done: the layer classes of the head of a model, the model
  object allocated last, and the layer objects afterwards.\<close>

definition head_classes :: "'c layer list \<Rightarrow> model \<Rightarrow> 'c layer_cls list" where
  "head_classes objs m = map (\<lambda>a. cls (objs ! a)) (tensor_head (outputs m))"

definition built_by ::
  "(('c, 'x) keras \<Rightarrow> ('c, 'x) notebook \<Rightarrow> (py_error + addr option) \<times> ('c, 'x) notebook) \<Rightarrow>
     ('c, 'x) keras \<Rightarrow> ('c, 'x) notebook \<Rightarrow> model" where
  "built_by B K s = last (model_objs (snd (B K s)))"

definition layers_after ::
  "(('c, 'x) keras \<Rightarrow> ('c, 'x) notebook \<Rightarrow> (py_error + addr option) \<times> ('c, 'x) notebook) \<Rightarrow>
     ('c, 'x) keras \<Rightarrow> ('c, 'x) notebook \<Rightarrow> 'c layer list" where
  "layers_after B K s = layer_objs (snd (B K s))"

text \<open>The width of a model's output: the units of the \<^verbatim>\<open>Dense\<close> layer that computes its
  output tensor.\<close>

definition output_units :: "'c layer list \<Rightarrow> model \<Rightarrow> nat option" where
  "output_units objs m =
     (case outputs m of
        Call a t \<Rightarrow> (case cls (objs ! a) of Dense n act \<Rightarrow> Some n | _ \<Rightarrow> None)
      | _ \<Rightarrow> None)"

section \<open>Cell 7: training and the sweep\<close>

definition SGD :: "('c, 'x) keras \<Rightarrow> (string \<times> pyarg) list \<Rightarrow> py_error + optimizer" where
  "SGD K kw =
     (let opt = \<lparr>opt_class = ''SGD'', kwargs = kw\<rparr>
      in case optimizer_init K opt of Some e \<Rightarrow> Inl e | None \<Rightarrow> Inr opt)"

definition Adam :: "('c, 'x) keras \<Rightarrow> (string \<times> pyarg) list \<Rightarrow> py_error + optimizer" where
  "Adam K kw =
     (let opt = \<lparr>opt_class = ''Adam'', kwargs = kw\<rparr>
      in case optimizer_init K opt of Some e \<Rightarrow> Inl e | None \<Rightarrow> Inr opt)"

text \<open>\<^verbatim>\<open>model.compile(optimizer=.., loss=.., metrics=..)\<close>, the optimizer argument evaluated
  first.\<close>

definition model_compile ::
  "('c, 'x) keras \<Rightarrow> addr \<Rightarrow> py_error + optimizer \<Rightarrow> string \<Rightarrow> string list \<Rightarrow>
     ('c, 'x) notebook \<Rightarrow> (py_error + unit) \<times> ('c, 'x) notebook" where
  "model_compile K m optimizer_arg loss metrics s =
     (case optimizer_arg of
        Inl e \<Rightarrow> (Inl e, s)
      | Inr opt \<Rightarrow>
          let s1 = s\<lparr>calls := calls s @ [Compile_call m opt loss metrics]\<rparr> in
          (case compile K (layer_objs s) (model_objs s ! m) opt loss metrics of
             Some e \<Rightarrow> (Inl e, s1)
           | None \<Rightarrow>
               (Inr (), s1\<lparr>model_objs :=
                  (model_objs s)[m := (model_objs s ! m)\<lparr>compiled := Some (opt, loss, metrics)\<rparr>]\<rparr>)))"

text \<open>\<^verbatim>\<open>model.fit(x, y, validation_data=.., epochs=.., batch_size=.., verbose=..)\<close>\<close>

definition model_fit ::
  "('c, 'x) keras \<Rightarrow> addr \<Rightarrow> 'x fit_args \<Rightarrow> ('c, 'x) notebook \<Rightarrow>
     (py_error + keras_history) \<times> ('c, 'x) notebook" where
  "model_fit K m args s =
     (fit K (layer_objs s) (model_objs s ! m) args, s\<lparr>calls := calls s @ [Fit_call m args]\<rparr>)"

text \<open>The arguments \<open>train\<close> passes to \<^verbatim>\<open>fit\<close>:
  \<^verbatim>\<open>train_tensors[:48], train_targets[:48], validation_data=(valid_tensors[:20], valid_targets[:20]),
  epochs=epochs, batch_size=4, verbose=1\<close>, the global names read when the call is made.\<close>

definition fit_arguments :: "('c, 'x) notebook \<Rightarrow> 'x fit_args" where
  "fit_arguments s =
     \<lparr>fit_x = slice_to 48 (train_tensors s), fit_y = slice_to 48 (train_targets s),
      fit_validation_data = (slice_to 20 (valid_tensors s), slice_to 20 (valid_targets s)),
      fit_epochs = epochs s, fit_batch_size = 4, fit_verbose = 1\<rparr>"

definition train ::
  "('c, 'x) keras \<Rightarrow> addr \<Rightarrow> string \<Rightarrow> real \<Rightarrow> ('c, 'x) notebook \<Rightarrow>
     (py_error + (string \<times> real \<times> keras_history)) \<times> ('c, 'x) notebook" where
  "train K m solver lr s0 =
     (let s = enter ''train'' s0 in
      case
        (if str_lower solver = ''sgd'' then
           model_compile K m (SGD K [(''lr'', FloatArg lr), (''momentum'', FloatArg 0.9)])
             ''categorical_crossentropy'' [''accuracy''] s
         else if str_lower solver = ''nesterov'' then
           model_compile K m
             (SGD K [(''lr'', FloatArg lr), (''momentum'', FloatArg 0.9), (''nesterov'', BoolArg True)])
             ''categorical_crossentropy'' [''accuracy''] s
         else if str_lower solver = ''adam'' then
           model_compile K m
             (Adam K [(''lr'', FloatArg lr), (''momentum'', FloatArg 0.9), (''beta_1'', FloatArg 0.9),
                      (''beta_2'', FloatArg 0.999), (''epsilon'', FloatArg (1 / 10 ^ 8))])
             ''categorical_crossentropy'' [''accuracy''] s
         else (Inr (), s))
      of
        (Inl e, s1) \<Rightarrow> (Inl e, s1)
      | (Inr u, s1) \<Rightarrow>
          (case model_fit K m (fit_arguments s1) s1 of
             (Inl e, s2) \<Rightarrow> (Inl e, s2)
           | (Inr result, s2) \<Rightarrow> (Inr (solver, lr, result), s2)))"

text \<open>The body of the inner loop, and the two loops. A value that is \<^verbatim>\<open>None\<close> has no
  \<^verbatim>\<open>compile\<close> or \<^verbatim>\<open>fit\<close>: Python raises AttributeError at the first of them.\<close>

definition sweep_body ::
  "('c, 'x) keras \<Rightarrow> string \<Rightarrow> real \<Rightarrow> ('c, 'x) notebook \<Rightarrow> (py_error + unit) \<times> ('c, 'x) notebook" where
  "sweep_body K solver lr s =
     (let s1 = print (Format ''Training %s with a learning rate of %f'' [PyStr solver, PyFloat lr]) s in
      case create_finetune_model K s1 of
        (Inl e, s2) \<Rightarrow> (Inl e, s2)
      | (Inr None, s2) \<Rightarrow> (Inl AttributeError, enter ''train'' s2)
      | (Inr (Some m), s2) \<Rightarrow>
          (case train K m solver lr s2 of
             (Inl e, s3) \<Rightarrow> (Inl e, s3)
           | (Inr r, s3) \<Rightarrow> (Inr (), s3\<lparr>results := results s3 @ [r]\<rparr>)))"

fun for_lr ::
  "('c, 'x) keras \<Rightarrow> string \<Rightarrow> real list \<Rightarrow> ('c, 'x) notebook \<Rightarrow> (py_error + unit) \<times> ('c, 'x) notebook" where
  "for_lr K solver [] s = (Inr (), s)"
| "for_lr K solver (lr # lrs) s =
     (case sweep_body K solver lr s of
        (Inl e, s1) \<Rightarrow> (Inl e, s1)
      | (Inr u, s1) \<Rightarrow> for_lr K solver lrs s1)"

fun for_solver ::
  "('c, 'x) keras \<Rightarrow> string list \<Rightarrow> real list \<Rightarrow> ('c, 'x) notebook \<Rightarrow>
     (py_error + unit) \<times> ('c, 'x) notebook" where
  "for_solver K [] lrs s = (Inr (), s)"
| "for_solver K (solver # rest) lrs s =
     (case for_lr K solver lrs s of
        (Inl e, s1) \<Rightarrow> (Inl e, s1)
      | (Inr u, s1) \<Rightarrow> for_solver K rest lrs s1)"

text \<open>\<^verbatim>\<open>results = []\<close> and the loops, over the lists the two names hold.\<close>

definition sweep :: "('c, 'x) keras \<Rightarrow> ('c, 'x) notebook \<Rightarrow> (py_error + unit) \<times> ('c, 'x) notebook" where
  "sweep K s = for_solver K (solvers s) (learning_rates s) (s\<lparr>results := []\<rparr>)"

definition cell_7 :: "('c, 'x) keras \<Rightarrow> ('c, 'x) notebook \<Rightarrow> (py_error + unit) \<times> ('c, 'x) notebook" where
  "cell_7 K s =
     sweep K (s\<lparr>epochs := 2, solvers := [''sgd''], learning_rates := [5 / 10 ^ 4, 1 / 10 ^ 3]\<rparr>)"

text \<open>A state that has moved on from \<open>s\<close>: lines printed, functions entered, layers
  allocated, the model objects replaced, calls logged and results appended.\<close>

definition advance ::
  "('c, 'x) notebook \<Rightarrow> printed list \<Rightarrow> string list \<Rightarrow> 'c layer list \<Rightarrow> model list \<Rightarrow>
     'x call list \<Rightarrow> (string \<times> real \<times> keras_history) list \<Rightarrow> ('c, 'x) notebook" where
  "advance s out ext lo mo cs rs =
     s\<lparr>stdout := stdout s @ out, entered := entered s @ ext, layer_objs := layer_objs s @ lo,
       model_objs := mo, calls := calls s @ cs, results := results s @ rs\<rparr>"

text \<open>Reading the log of library calls: the models \<^verbatim>\<open>fit\<close> was called on, in order.\<close>

fun fit_models :: "'x call list \<Rightarrow> addr list" where
  "fit_models [] = []"
| "fit_models (Fit_call m a # cs) = m # fit_models cs"
| "fit_models (Compile_call m opt l ms # cs) = fit_models cs"

text \<open>What a run of the loops over the list \<open>pairs\<close> that started in \<open>s\<close> and was not ended
  by an exception has done: entered the fine-tune builder and \<open>train\<close> once per pair, allocated
  one model per pair and called \<^verbatim>\<open>fit\<close> once on each of them, and appended one triple per
  pair, holding the pair and a \<^verbatim>\<open>History\<close> that \<^verbatim>\<open>fit\<close> returned.\<close>

definition swept ::
  "('c, 'x) keras \<Rightarrow> ('c, 'x) notebook \<Rightarrow> (string \<times> real) list \<Rightarrow> string list \<Rightarrow> model list \<Rightarrow>
     'x call list \<Rightarrow> (string \<times> real \<times> keras_history) list \<Rightarrow> bool" where
  "swept K s pairs ext mo cs rs \<longleftrightarrow>
     ext = concat (replicate (length pairs) [''create_finetune_model'', ''train'']) \<and>
     length mo = length (model_objs s) + length pairs \<and>
     fit_models cs = [length (model_objs s) ..< length (model_objs s) + length pairs] \<and>
     map (\<lambda>r. (fst r, fst (snd r))) rs = pairs \<and>
     list_all (\<lambda>r. \<exists>ls mm. fit K ls mm (fit_arguments s) = Inr (snd (snd r))) rs"

section \<open>Cell 9: the results\<close>

text \<open>\<^verbatim>\<open>print(results)\<close>: the list shows each of its tuples by \<^verbatim>\<open>repr\<close>, and a
  \<^verbatim>\<open>History\<close> object shows as its class and identity.\<close>

definition repr_result :: "string \<times> real \<times> keras_history \<Rightarrow> pyval" where
  "repr_result r =
     (case r of (solver, lr, h) \<Rightarrow>
        PyTuple [PyStr solver, PyFloat lr, PyObject ''keras.callbacks.History'' (object_id h)])"

definition cell_9 :: "('c, 'x) notebook \<Rightarrow> ('c, 'x) notebook" where
  "cell_9 s = print (Repr (PyList (map repr_result (results s)))) s"

text \<open>What that line shows of a result: the solver, the learning rate and which
  \<^verbatim>\<open>History\<close> object it holds.\<close>

definition shown :: "string \<times> real \<times> keras_history \<Rightarrow> string \<times> real \<times> nat" where
  "shown r = (fst r, fst (snd r), object_id (snd (snd r)))"

section \<open>A concrete file system, library and state\<close>

text \<open>A dataset of three images in two classes, a library whose \<^verbatim>\<open>InceptionV3\<close> has two
  layers, whose \<^verbatim>\<open>Adam\<close> rejects the keyword \<^verbatim>\<open>momentum\<close> and whose \<^verbatim>\<open>fit\<close> refuses a
  model that was not compiled, and the state of a fresh kernel holding 50 training and 25
  validation images.\<close>

definition example_fs :: filesystem where
  "example_fs =
     \<lparr>load_files = (\<lambda>path.
        if path = ''dogImages/train'' \<or> path = ''dogImages/valid'' \<or> path = ''dogImages/test''
        then Inr \<lparr>filenames = [''a.jpg'', ''b.jpg'', ''c.jpg''], target = [0, 1, 0],
                  target_names = [''001.Affenpinscher'', ''002.Afghan_hound'']\<rparr>
        else Inl OSError),
      glob = (\<lambda>pattern.
        if pattern = ''dogImages/train/*/''
        then [''dogImages/train/002.Afghan_hound/'', ''dogImages/train/001.Affenpinscher/'']
        else [])\<rparr>"

definition example_keras :: "(string, nat) keras" where
  "example_keras =
     \<lparr>InceptionV3 = (\<lambda>with_top w shp.
        Inr [\<lparr>cls = Application_layer ''conv2d_1'', trainable = True\<rparr>,
             \<lparr>cls = Application_layer ''mixed10'', trainable = True\<rparr>]),
      optimizer_init = (\<lambda>opt.
        if opt_class opt = ''Adam'' \<and> ''momentum'' \<in> set (map fst (kwargs opt))
        then Some TypeError else None),
      compile = (\<lambda>ls m opt loss metrics. None),
      fit = (\<lambda>ls m args.
        case compiled m of
          None \<Rightarrow> Inl RuntimeError
        | Some c \<Rightarrow> Inr \<lparr>object_id = length ls, history = [(''val_loss'', [5, 4])]\<rparr>)\<rparr>"

definition example_state :: "(string, nat) notebook" where
  "example_state =
     \<lparr>train_files = np_array [], train_targets = \<lparr>rows = [], row_shape = [133]\<rparr>,
      valid_files = np_array [], valid_targets = \<lparr>rows = [], row_shape = [133]\<rparr>,
      test_files = np_array [], test_targets = \<lparr>rows = [], row_shape = [133]\<rparr>,
      dog_names = [], num_classes = 2,
      train_tensors = \<lparr>rows = [0 ..< 50], row_shape = [224, 224, 3]\<rparr>,
      valid_tensors = \<lparr>rows = [100 ..< 125], row_shape = [224, 224, 3]\<rparr>,
      test_tensors = \<lparr>rows = [], row_shape = [224, 224, 3]\<rparr>,
      epochs = 2, solvers = [''sgd''], learning_rates = [5 / 10 ^ 4, 1 / 10 ^ 3], results = [],
      layer_objs = [], model_objs = [], calls = [], stdout = [], entered = []\<rparr>"

text \<open>Two outcomes of the sweep that hold the same \<^verbatim>\<open>History\<close> objects with the recorded
  validation losses exchanged: in the first the learning rate 0.0005 has the lower loss, in
  the second the learning rate 0.001.\<close>

definition example_results :: "(string \<times> real \<times> keras_history) list" where
  "example_results =
     [(''sgd'', 5 / 10 ^ 4, \<lparr>object_id = 5, history = [(''val_loss'', [5184 / 1000, 51333 / 10000])]\<rparr>),
      (''sgd'', 1 / 10 ^ 3, \<lparr>object_id = 10, history = [(''val_loss'', [55274 / 10000, 556 / 100])]\<rparr>)]"

definition example_results_swapped :: "(string \<times> real \<times> keras_history) list" where
  "example_results_swapped =
     [(''sgd'', 5 / 10 ^ 4, \<lparr>object_id = 5, history = [(''val_loss'', [55274 / 10000, 556 / 100])]\<rparr>),
      (''sgd'', 1 / 10 ^ 3, \<lparr>object_id = 10, history = [(''val_loss'', [5184 / 1000, 51333 / 10000])]\<rparr>)]"

section \<open>The effect of the builders\<close>

lemma length_freeze: "length (freeze as objs) = length objs"
  by (induction as arbitrary: objs) simp_all

lemma nth_freeze:
  "i < length objs \<Longrightarrow>
     freeze as objs ! i = (if i \<in> set as then (objs ! i)\<lparr>trainable := False\<rparr> else objs ! i)"
proof (induction as arbitrary: objs)
  case Nil
  then show ?case by simp
next
  case (Cons l rest)
  from Cons.prems have "i < length (objs[l := (objs ! l)\<lparr>trainable := False\<rparr>])" by simp
  from Cons.IH[OF this] Cons.prems show ?case
    by (cases "i = l") (auto simp: nth_list_update)
qed

lemma freeze_new_layers:
  "freeze [length objs ..< length objs + length ls] (objs @ ls @ hd_layers) =
     objs @ map (\<lambda>l. l\<lparr>trainable := False\<rparr>) ls @ hd_layers"
proof (rule nth_equalityI)
  show "length (freeze [length objs ..< length objs + length ls] (objs @ ls @ hd_layers)) =
        length (objs @ map (\<lambda>l. l\<lparr>trainable := False\<rparr>) ls @ hd_layers)"
    by (simp add: length_freeze)
next
  fix i
  assume "i < length (freeze [length objs ..< length objs + length ls] (objs @ ls @ hd_layers))"
  then have i: "i < length (objs @ ls @ hd_layers)" by (simp add: length_freeze)
  show "freeze [length objs ..< length objs + length ls] (objs @ ls @ hd_layers) ! i =
        (objs @ map (\<lambda>l. l\<lparr>trainable := False\<rparr>) ls @ hd_layers) ! i"
    using i by (auto simp: nth_freeze nth_append)
qed

lemma create_scratch_model_Inr:
  assumes "InceptionV3 K False None (row_shape (train_tensors s)) = Inr ls"
  shows "create_scratch_model K s =
     (Inr None,
      s\<lparr>entered := entered s @ [''create_scratch_model''],
        layer_objs := layer_objs s @ ls @ built_head s,
        model_objs := model_objs s @ [built_model None s ls]\<rparr>)"
  using assms
  by (simp add: create_scratch_model_def new_InceptionV3_def apply_layer_def new_Model_def
      enter_def shape_def built_base_def built_head_def built_model_def Let_def)

lemma create_scratch_model_Inl:
  assumes "InceptionV3 K False None (row_shape (train_tensors s)) = Inl e"
  shows "create_scratch_model K s = (Inl e, s\<lparr>entered := entered s @ [''create_scratch_model'']\<rparr>)"
  using assms
  by (simp add: create_scratch_model_def new_InceptionV3_def enter_def shape_def Let_def)

lemma create_finetune_model_Inr:
  assumes "InceptionV3 K False (Some ''imagenet'') (row_shape (train_tensors s)) = Inr ls"
  shows "create_finetune_model K s =
     (Inr (Some (length (model_objs s))),
      s\<lparr>entered := entered s @ [''create_finetune_model''],
        layer_objs := layer_objs s @ ls @ built_head s,
        model_objs := model_objs s @ [built_model (Some ''imagenet'') s ls]\<rparr>)"
  using assms
  by (simp add: create_finetune_model_def new_InceptionV3_def apply_layer_def new_Model_def
      enter_def shape_def built_base_def built_head_def built_model_def Let_def)

lemma create_finetune_model_Inl:
  assumes "InceptionV3 K False (Some ''imagenet'') (row_shape (train_tensors s)) = Inl e"
  shows "create_finetune_model K s = (Inl e, s\<lparr>entered := entered s @ [''create_finetune_model'']\<rparr>)"
  using assms
  by (simp add: create_finetune_model_def new_InceptionV3_def enter_def shape_def Let_def)

lemma create_frozen_model_Inr:
  assumes "InceptionV3 K False (Some ''imagenet'') (row_shape (train_tensors s)) = Inr ls"
  shows "create_frozen_model K s =
     (Inr None,
      s\<lparr>entered := entered s @ [''create_frozen_model''],
        layer_objs := layer_objs s @ map (\<lambda>l. l\<lparr>trainable := False\<rparr>) ls @ built_head s,
        model_objs := model_objs s @ [built_model (Some ''imagenet'') s ls]\<rparr>)"
  using assms freeze_new_layers[of "layer_objs s" ls "built_head s"]
  by (simp add: create_frozen_model_def new_InceptionV3_def apply_layer_def new_Model_def
      enter_def shape_def built_base_def built_head_def built_model_def Let_def)

lemma create_frozen_model_Inl:
  assumes "InceptionV3 K False (Some ''imagenet'') (row_shape (train_tensors s)) = Inl e"
  shows "create_frozen_model K s = (Inl e, s\<lparr>entered := entered s @ [''create_frozen_model'']\<rparr>)"
  using assms
  by (simp add: create_frozen_model_def new_InceptionV3_def enter_def shape_def Let_def)

section \<open>The effect of \<open>train\<close>\<close>

lemma advance_advance:
  "advance (advance s o1 e1 l1 m1 c1 r1) o2 e2 l2 m2 c2 r2 =
     advance s (o1 @ o2) (e1 @ e2) (l1 @ l2) m2 (c1 @ c2) (r1 @ r2)"
  by (simp add: advance_def)

lemma advance_simps:
  "stdout (advance s out ext lo mo cs rs) = stdout s @ out"
  "entered (advance s out ext lo mo cs rs) = entered s @ ext"
  "layer_objs (advance s out ext lo mo cs rs) = layer_objs s @ lo"
  "model_objs (advance s out ext lo mo cs rs) = mo"
  "calls (advance s out ext lo mo cs rs) = calls s @ cs"
  "results (advance s out ext lo mo cs rs) = results s @ rs"
  "fit_arguments (advance s out ext lo mo cs rs) = fit_arguments s"
  "train_tensors (advance s out ext lo mo cs rs) = train_tensors s"
  "num_classes (advance s out ext lo mo cs rs) = num_classes s"
  by (simp_all add: advance_def fit_arguments_def)

lemma fit_models_append: "fit_models (cs @ ds) = fit_models cs @ fit_models ds"
  by (induction cs rule: fit_models.induct) simp_all

lemma model_compile_effect:
  "\<exists>cs mo. snd (model_compile K m oa l ms s) = s\<lparr>calls := calls s @ cs, model_objs := mo\<rparr> \<and>
     length mo = length (model_objs s) \<and> fit_models cs = [] \<and> (\<forall>m' a. Fit_call m' a \<notin> set cs)"
proof (cases oa)
  case (Inl e)
  then have "snd (model_compile K m oa l ms s) = s\<lparr>calls := calls s @ [], model_objs := model_objs s\<rparr>"
    by (simp add: model_compile_def)
  then show ?thesis by (intro exI[of _ "[]"] exI[of _ "model_objs s"]) simp
next
  case (Inr opt)
  show ?thesis
  proof (cases "compile K (layer_objs s) (model_objs s ! m) opt l ms")
    case None
    with Inr have "snd (model_compile K m oa l ms s) =
        s\<lparr>calls := calls s @ [Compile_call m opt l ms],
          model_objs := (model_objs s)[m := (model_objs s ! m)\<lparr>compiled := Some (opt, l, ms)\<rparr>]\<rparr>"
      by (simp add: model_compile_def Let_def)
    then show ?thesis
      by (intro exI[of _ "[Compile_call m opt l ms]"]
          exI[of _ "(model_objs s)[m := (model_objs s ! m)\<lparr>compiled := Some (opt, l, ms)\<rparr>]"]) simp
  next
    case (Some e)
    with Inr have "snd (model_compile K m oa l ms s) =
        s\<lparr>calls := calls s @ [Compile_call m opt l ms], model_objs := model_objs s\<rparr>"
      by (simp add: model_compile_def Let_def)
    then show ?thesis
      by (intro exI[of _ "[Compile_call m opt l ms]"] exI[of _ "model_objs s"]) simp
  qed
qed

lemma train_unknown:
  assumes "str_lower solver \<noteq> ''sgd''" "str_lower solver \<noteq> ''nesterov''" "str_lower solver \<noteq> ''adam''"
  shows "train K m solver lr s =
     (case fit K (layer_objs s) (model_objs s ! m) (fit_arguments s) of
        Inl e \<Rightarrow> Inl e | Inr h \<Rightarrow> Inr (solver, lr, h),
      s\<lparr>entered := entered s @ [''train''], calls := calls s @ [Fit_call m (fit_arguments s)]\<rparr>)"
  using assms
  by (simp add: train_def model_fit_def enter_def fit_arguments_def Let_def split: sum.splits)

lemma train_effect:
  "\<exists>cs mo. snd (train K m solver lr s) = advance s [] [''train''] [] mo cs [] \<and>
     length mo = length (model_objs s) \<and>
     (\<forall>m' a. Fit_call m' a \<in> set cs \<longrightarrow> m' = m \<and> a = fit_arguments s) \<and>
     (\<forall>r. fst (train K m solver lr s) = Inr r \<longrightarrow>
        fit_models cs = [m] \<and> fst r = solver \<and> fst (snd r) = lr \<and>
        (\<exists>ls mm. fit K ls mm (fit_arguments s) = Inr (snd (snd r))))"
proof -
  define s1 where "s1 = enter ''train'' s"
  define step where "step =
        (if str_lower solver = ''sgd'' then
           model_compile K m (SGD K [(''lr'', FloatArg lr), (''momentum'', FloatArg 0.9)])
             ''categorical_crossentropy'' [''accuracy''] s1
         else if str_lower solver = ''nesterov'' then
           model_compile K m
             (SGD K [(''lr'', FloatArg lr), (''momentum'', FloatArg 0.9), (''nesterov'', BoolArg True)])
             ''categorical_crossentropy'' [''accuracy''] s1
         else if str_lower solver = ''adam'' then
           model_compile K m
             (Adam K [(''lr'', FloatArg lr), (''momentum'', FloatArg 0.9), (''beta_1'', FloatArg 0.9),
                      (''beta_2'', FloatArg 0.999), (''epsilon'', FloatArg (1 / 10 ^ 8))])
             ''categorical_crossentropy'' [''accuracy''] s1
         else (Inr (), s1))"
  have t: "train K m solver lr s =
     (case step of
        (Inl e, s2) \<Rightarrow> (Inl e, s2)
      | (Inr u, s2) \<Rightarrow>
          (case model_fit K m (fit_arguments s2) s2 of
             (Inl e, s3) \<Rightarrow> (Inl e, s3)
           | (Inr result, s3) \<Rightarrow> (Inr (solver, lr, result), s3)))"
    by (simp add: train_def step_def s1_def Let_def)
  have "\<exists>cs mo. snd step = s1\<lparr>calls := calls s1 @ cs, model_objs := mo\<rparr> \<and>
     length mo = length (model_objs s1) \<and> fit_models cs = [] \<and> (\<forall>m' a. Fit_call m' a \<notin> set cs)"
  proof (cases "str_lower solver = ''sgd'' \<or> str_lower solver = ''nesterov'' \<or> str_lower solver = ''adam''")
    case True
    then show ?thesis unfolding step_def using model_compile_effect[of K m _ _ _ s1] by auto
  next
    case False
    then have "snd step = s1\<lparr>calls := calls s1 @ [], model_objs := model_objs s1\<rparr>"
      by (simp add: step_def)
    then show ?thesis by (intro exI[of _ "[]"] exI[of _ "model_objs s1"]) simp
  qed
  then obtain cs mo where st: "snd step = s1\<lparr>calls := calls s1 @ cs, model_objs := mo\<rparr>"
    and mo: "length mo = length (model_objs s1)" and fm: "fit_models cs = []"
    and nf: "\<forall>m' a. Fit_call m' a \<notin> set cs"
    by blast
  have fa: "fit_arguments (snd step) = fit_arguments s"
    by (simp add: st s1_def enter_def fit_arguments_def)
  show ?thesis
  proof (cases "fst step")
    case (Inl e)
    then have "train K m solver lr s = (Inl e, snd step)"
      by (cases step) (simp add: t)
    with st mo nf show ?thesis
      by (intro exI[of _ cs] exI[of _ mo]) (simp add: s1_def enter_def advance_def)
  next
    case (Inr u)
    then have tr: "train K m solver lr s =
       (case fit K (layer_objs (snd step)) (model_objs (snd step) ! m) (fit_arguments s) of
          Inl e \<Rightarrow> Inl e | Inr h \<Rightarrow> Inr (solver, lr, h),
        (snd step)\<lparr>calls := calls (snd step) @ [Fit_call m (fit_arguments s)]\<rparr>)"
      using fa by (cases step) (simp add: t model_fit_def split: sum.splits)
    have 1: "snd (train K m solver lr s) =
       s\<lparr>entered := entered s @ [''train''], calls := calls s @ (cs @ [Fit_call m (fit_arguments s)]),
         model_objs := mo\<rparr>"
      by (simp add: tr st s1_def enter_def)
    have 2: "\<forall>m' a. Fit_call m' a \<in> set (cs @ [Fit_call m (fit_arguments s)]) \<longrightarrow>
               m' = m \<and> a = fit_arguments s"
      using nf by auto
    have 3: "\<forall>r. fst (train K m solver lr s) = Inr r \<longrightarrow>
        fit_models (cs @ [Fit_call m (fit_arguments s)]) = [m] \<and> fst r = solver \<and> fst (snd r) = lr \<and>
        (\<exists>ls mm. fit K ls mm (fit_arguments s) = Inr (snd (snd r)))"
      by (auto simp: tr fit_models_append fm split: sum.splits)
    from 1 2 3 mo show ?thesis
      by (intro exI[of _ "cs @ [Fit_call m (fit_arguments s)]"] exI[of _ mo])
         (simp add: s1_def enter_def advance_def)
  qed
qed

section \<open>The effect of the sweep\<close>

lemma swept_Nil: "swept K s [] [] (model_objs s) [] []"
  by (simp add: swept_def)

lemma swept_append:
  assumes "swept K s ps e1 m1 c1 r1"
    and "swept K (advance s o1 e1 l1 m1 c1 r1) qs e2 m2 c2 r2"
  shows "swept K s (ps @ qs) (e1 @ e2) m2 (c1 @ c2) (r1 @ r2)"
proof -
  have "[length (model_objs s) ..< length (model_objs s) + length ps] @
        [length (model_objs s) + length ps ..< length (model_objs s) + length ps + length qs] =
        [length (model_objs s) ..< length (model_objs s) + (length ps + length qs)]"
    by (metis add.assoc le_add1 upt_add_eq_append)
  with assms show ?thesis
    by (simp add: swept_def advance_simps fit_models_append replicate_add)
qed

lemma sweep_body_effect:
  "\<exists>ext lo mo cs rs.
     snd (sweep_body K solver lr s) = advance s [Format ''Training %s with a learning rate of %f'' [PyStr solver, PyFloat lr]] ext lo mo cs rs \<and>
     set ext \<subseteq> {''create_finetune_model'', ''train''} \<and>
     (\<forall>m' a. Fit_call m' a \<in> set cs \<longrightarrow> m' = length (model_objs s) \<and> a = fit_arguments s) \<and>
     (fst (sweep_body K solver lr s) = Inr () \<longrightarrow>
        ext = [''create_finetune_model'', ''train''] \<and>
        length mo = length (model_objs s) + 1 \<and>
        fit_models cs = [length (model_objs s)] \<and>
        (\<exists>h. rs = [(solver, lr, h)] \<and> (\<exists>ls mm. fit K ls mm (fit_arguments s) = Inr h)))"
proof -
  define s1 where "s1 = print (Format ''Training %s with a learning rate of %f'' [PyStr solver, PyFloat lr]) s"
  have s1: "s1 = advance s [Format ''Training %s with a learning rate of %f'' [PyStr solver, PyFloat lr]] [] [] (model_objs s) [] []"
    by (simp add: s1_def print_def advance_def)
  have sb: "sweep_body K solver lr s =
      (case create_finetune_model K s1 of
        (Inl e, s2) \<Rightarrow> (Inl e, s2)
      | (Inr None, s2) \<Rightarrow> (Inl AttributeError, enter ''train'' s2)
      | (Inr (Some m), s2) \<Rightarrow>
          (case train K m solver lr s2 of
             (Inl e, s3) \<Rightarrow> (Inl e, s3)
           | (Inr r, s3) \<Rightarrow> (Inr (), s3\<lparr>results := results s3 @ [r]\<rparr>)))"
    by (simp add: sweep_body_def s1_def Let_def)
  show ?thesis
  proof (cases "InceptionV3 K False (Some ''imagenet'') (row_shape (train_tensors s1))")
    case (Inl e)
    from create_finetune_model_Inl[OF Inl]
    have "sweep_body K solver lr s = (Inl e, advance s1 [] [''create_finetune_model''] [] (model_objs s1) [] [])"
      by (simp add: sb advance_def)
    then show ?thesis
      by (intro exI[of _ "[''create_finetune_model'']"] exI[of _ "[]"] exI[of _ "model_objs s"])
         (simp add: s1 advance_advance advance_simps)
  next
    case (Inr ls)
    define s2 where "s2 = advance s1 [] [''create_finetune_model''] (ls @ built_head s1)
        (model_objs s1 @ [built_model (Some ''imagenet'') s1 ls]) [] []"
    define m where "m = length (model_objs s)"
    from create_finetune_model_Inr[OF Inr]
    have cf: "create_finetune_model K s1 = (Inr (Some m), s2)"
      by (simp add: s2_def advance_def m_def s1 )
    from train_effect[of K m solver lr s2] obtain cs mo where
      t1: "snd (train K m solver lr s2) = advance s2 [] [''train''] [] mo cs []"
      and t2: "length mo = length (model_objs s2)"
      and t3: "\<forall>m' a. Fit_call m' a \<in> set cs \<longrightarrow> m' = m \<and> a = fit_arguments s2"
      and t4: "\<forall>r. fst (train K m solver lr s2) = Inr r \<longrightarrow>
        fit_models cs = [m] \<and> fst r = solver \<and> fst (snd r) = lr \<and>
        (\<exists>ls mm. fit K ls mm (fit_arguments s2) = Inr (snd (snd r)))"
      by blast
    have fa: "fit_arguments s2 = fit_arguments s"
      by (simp add: s2_def s1 advance_simps)
    have len: "length (model_objs s2) = length (model_objs s) + 1"
      by (simp add: s2_def s1 advance_simps)
    show ?thesis
    proof (cases "fst (train K m solver lr s2)")
      case (Inl e)
      then have "sweep_body K solver lr s = (Inl e, advance s2 [] [''train''] [] mo cs [])"
        using t1 by (cases "train K m solver lr s2") (simp add: sb cf)
      then show ?thesis using t3 fa
        by (intro exI[of _ "[''create_finetune_model'', ''train'']"] exI[of _ "ls @ built_head s1"]
              exI[of _ mo] exI[of _ cs] exI[of _ "[]"])
           (simp add: s2_def s1 advance_advance advance_simps m_def)
    next
      case (Inr r)
      then have "sweep_body K solver lr s = (Inr (), advance s2 [] [''train''] [] mo cs [r])"
        using t1 by (cases "train K m solver lr s2") (simp add: sb cf advance_def)
      moreover from t4 Inr have "fit_models cs = [m]" "fst r = solver" "fst (snd r) = lr"
        "\<exists>ls mm. fit K ls mm (fit_arguments s) = Inr (snd (snd r))"
        by (auto simp: fa)
      moreover have "r = (solver, lr, snd (snd r))"
        using \<open>fst r = solver\<close> \<open>fst (snd r) = lr\<close> by (cases r) auto
      ultimately show ?thesis using t2 t3 fa len
        by (intro exI[of _ "[''create_finetune_model'', ''train'']"] exI[of _ "ls @ built_head s1"]
              exI[of _ mo] exI[of _ cs] exI[of _ "[r]"])
           (auto simp: s2_def s1 advance_advance advance_simps m_def)
    qed
  qed
qed


lemma sweep_body_swept:
  "\<exists>ext lo mo cs rs.
     snd (sweep_body K solver lr s) =
       advance s [Format ''Training %s with a learning rate of %f'' [PyStr solver, PyFloat lr]] ext lo mo cs rs \<and>
     set ext \<subseteq> {''create_finetune_model'', ''train''} \<and>
     (\<forall>m' a. Fit_call m' a \<in> set cs \<longrightarrow> a = fit_arguments s) \<and>
     (fst (sweep_body K solver lr s) = Inr () \<longrightarrow> swept K s [(solver, lr)] ext mo cs rs)"
proof -
  from sweep_body_effect[of K solver lr s] obtain ext lo mo cs rs where
    1: "snd (sweep_body K solver lr s) = advance s [Format ''Training %s with a learning rate of %f'' [PyStr solver, PyFloat lr]] ext lo mo cs rs"
    and 2: "set ext \<subseteq> {''create_finetune_model'', ''train''}"
    and 3: "\<forall>m' a. Fit_call m' a \<in> set cs \<longrightarrow> m' = length (model_objs s) \<and> a = fit_arguments s"
    and 4: "fst (sweep_body K solver lr s) = Inr () \<longrightarrow>
        ext = [''create_finetune_model'', ''train''] \<and>
        length mo = length (model_objs s) + 1 \<and>
        fit_models cs = [length (model_objs s)] \<and>
        (\<exists>h. rs = [(solver, lr, h)] \<and> (\<exists>ls mm. fit K ls mm (fit_arguments s) = Inr h))"
    by blast
  have "swept K s [(solver, lr)] ext mo cs rs" if "fst (sweep_body K solver lr s) = Inr ()"
  proof -
    from 4 that obtain h where "ext = [''create_finetune_model'', ''train'']"
      "length mo = length (model_objs s) + 1" "fit_models cs = [length (model_objs s)]"
      "rs = [(solver, lr, h)]" "\<exists>ls mm. fit K ls mm (fit_arguments s) = Inr h"
      by blast
    then show ?thesis by (simp add: swept_def)
  qed
  with 1 2 3 show ?thesis
    by (intro exI[of _ ext] exI[of _ lo] exI[of _ mo] exI[of _ cs] exI[of _ rs])
       simp
qed

lemma for_lr_effect:
  "\<exists>out ext lo mo cs rs.
     snd (for_lr K solver lrs s) = advance s out ext lo mo cs rs \<and>
     set ext \<subseteq> {''create_finetune_model'', ''train''} \<and>
     (\<forall>m' a. Fit_call m' a \<in> set cs \<longrightarrow> a = fit_arguments s) \<and>
     (fst (for_lr K solver lrs s) = Inr () \<longrightarrow> swept K s (map (Pair solver) lrs) ext mo cs rs)"
proof (induction lrs arbitrary: s)
  case Nil
  have "snd (for_lr K solver [] s) = advance s [] [] [] (model_objs s) [] []"
    by (simp add: advance_def)
  then show ?case using swept_Nil[of K s]
    by (intro exI[of _ "[]"] exI[of _ "model_objs s"]) simp
next
  case (Cons lr lrs)
  from sweep_body_swept[of K solver lr s] obtain o1 e1 l1 m1 c1 r1 where
    b1: "snd (sweep_body K solver lr s) = advance s o1 e1 l1 m1 c1 r1"
    and b2: "set e1 \<subseteq> {''create_finetune_model'', ''train''}"
    and b3: "\<forall>m' a. Fit_call m' a \<in> set c1 \<longrightarrow> a = fit_arguments s"
    and b4: "fst (sweep_body K solver lr s) = Inr () \<longrightarrow> swept K s [(solver, lr)] e1 m1 c1 r1"
    by blast
  show ?case
  proof (cases "fst (sweep_body K solver lr s)")
    case (Inl e)
    then have "for_lr K solver (lr # lrs) s = (Inl e, advance s o1 e1 l1 m1 c1 r1)"
      using b1 by (cases "sweep_body K solver lr s") simp
    with b2 b3 show ?thesis
      by (intro exI[of _ o1] exI[of _ e1] exI[of _ l1] exI[of _ m1] exI[of _ c1] exI[of _ r1]) simp
  next
    case (Inr u)
    define s1 where "s1 = advance s o1 e1 l1 m1 c1 r1"
    from Inr have f: "for_lr K solver (lr # lrs) s = for_lr K solver lrs s1"
      using b1 by (cases "sweep_body K solver lr s") (simp add: s1_def)
    from Cons.IH[of s1] obtain o2 e2 l2 m2 c2 r2 where
      i1: "snd (for_lr K solver lrs s1) = advance s1 o2 e2 l2 m2 c2 r2"
      and i2: "set e2 \<subseteq> {''create_finetune_model'', ''train''}"
      and i3: "\<forall>m' a. Fit_call m' a \<in> set c2 \<longrightarrow> a = fit_arguments s1"
      and i4: "fst (for_lr K solver lrs s1) = Inr () \<longrightarrow> swept K s1 (map (Pair solver) lrs) e2 m2 c2 r2"
      by blast
    from Inr b4 have w1: "swept K s [(solver, lr)] e1 m1 c1 r1" by simp
    have "fst (for_lr K solver (lr # lrs) s) = Inr () \<longrightarrow>
            swept K s (map (Pair solver) (lr # lrs)) (e1 @ e2) m2 (c1 @ c2) (r1 @ r2)"
      using swept_append[OF w1, of o1 l1 "map (Pair solver) lrs" e2 m2 c2 r2] i4
      unfolding f s1_def by simp
    moreover have "snd (for_lr K solver (lr # lrs) s) =
        advance s (o1 @ o2) (e1 @ e2) (l1 @ l2) m2 (c1 @ c2) (r1 @ r2)"
      unfolding f i1 by (simp add: s1_def advance_advance)
    moreover have "\<forall>m' a. Fit_call m' a \<in> set (c1 @ c2) \<longrightarrow> a = fit_arguments s"
      using b3 i3 by (auto simp: s1_def advance_simps)
    ultimately show ?thesis using b2 i2
      by (intro exI[of _ "o1 @ o2"] exI[of _ "e1 @ e2"] exI[of _ "l1 @ l2"] exI[of _ m2]
            exI[of _ "c1 @ c2"] exI[of _ "r1 @ r2"]) simp
  qed
qed

lemma for_solver_effect:
  "\<exists>out ext lo mo cs rs.
     snd (for_solver K svs lrs s) = advance s out ext lo mo cs rs \<and>
     set ext \<subseteq> {''create_finetune_model'', ''train''} \<and>
     (\<forall>m' a. Fit_call m' a \<in> set cs \<longrightarrow> a = fit_arguments s) \<and>
     (fst (for_solver K svs lrs s) = Inr () \<longrightarrow> swept K s (List.product svs lrs) ext mo cs rs)"
proof (induction svs arbitrary: s)
  case Nil
  have "snd (for_solver K [] lrs s) = advance s [] [] [] (model_objs s) [] []"
    by (simp add: advance_def)
  then show ?case using swept_Nil[of K s]
    by (intro exI[of _ "[]"] exI[of _ "model_objs s"]) simp
next
  case (Cons solver svs)
  from for_lr_effect[of K solver lrs s] obtain o1 e1 l1 m1 c1 r1 where
    b1: "snd (for_lr K solver lrs s) = advance s o1 e1 l1 m1 c1 r1"
    and b2: "set e1 \<subseteq> {''create_finetune_model'', ''train''}"
    and b3: "\<forall>m' a. Fit_call m' a \<in> set c1 \<longrightarrow> a = fit_arguments s"
    and b4: "fst (for_lr K solver lrs s) = Inr () \<longrightarrow> swept K s (map (Pair solver) lrs) e1 m1 c1 r1"
    by blast
  show ?case
  proof (cases "fst (for_lr K solver lrs s)")
    case (Inl e)
    then have "for_solver K (solver # svs) lrs s = (Inl e, advance s o1 e1 l1 m1 c1 r1)"
      using b1 by (cases "for_lr K solver lrs s") simp
    with b2 b3 show ?thesis
      by (intro exI[of _ o1] exI[of _ e1] exI[of _ l1] exI[of _ m1] exI[of _ c1] exI[of _ r1]) simp
  next
    case (Inr u)
    define s1 where "s1 = advance s o1 e1 l1 m1 c1 r1"
    from Inr have f: "for_solver K (solver # svs) lrs s = for_solver K svs lrs s1"
      using b1 by (cases "for_lr K solver lrs s") (simp add: s1_def)
    from Cons.IH[of s1] obtain o2 e2 l2 m2 c2 r2 where
      i1: "snd (for_solver K svs lrs s1) = advance s1 o2 e2 l2 m2 c2 r2"
      and i2: "set e2 \<subseteq> {''create_finetune_model'', ''train''}"
      and i3: "\<forall>m' a. Fit_call m' a \<in> set c2 \<longrightarrow> a = fit_arguments s1"
      and i4: "fst (for_solver K svs lrs s1) = Inr () \<longrightarrow> swept K s1 (List.product svs lrs) e2 m2 c2 r2"
      by blast
    from Inr b4 have w1: "swept K s (map (Pair solver) lrs) e1 m1 c1 r1" by simp
    have "fst (for_solver K (solver # svs) lrs s) = Inr () \<longrightarrow>
            swept K s (List.product (solver # svs) lrs) (e1 @ e2) m2 (c1 @ c2) (r1 @ r2)"
      using swept_append[OF w1, of o1 l1 "List.product svs lrs" e2 m2 c2 r2] i4
      unfolding f s1_def by simp
    moreover have "snd (for_solver K (solver # svs) lrs s) =
        advance s (o1 @ o2) (e1 @ e2) (l1 @ l2) m2 (c1 @ c2) (r1 @ r2)"
      unfolding f i1 by (simp add: s1_def advance_advance)
    moreover have "\<forall>m' a. Fit_call m' a \<in> set (c1 @ c2) \<longrightarrow> a = fit_arguments s"
      using b3 i3 by (auto simp: s1_def advance_simps)
    ultimately show ?thesis using b2 i2
      by (intro exI[of _ "o1 @ o2"] exI[of _ "e1 @ e2"] exI[of _ "l1 @ l2"] exI[of _ m2]
            exI[of _ "c1 @ c2"] exI[of _ "r1 @ r2"]) simp
  qed
qed


section \<open>The targets of \<open>load_dataset\<close>\<close>

lemma length_one_hot: "length (one_hot n t) = n"
  by (simp add: one_hot_def)

lemma one_hot_at: "t < n \<Longrightarrow> one_hot n t ! t = 1"
  by (simp add: one_hot_def)

lemma one_hot_off: "j < n \<Longrightarrow> j \<noteq> t \<Longrightarrow> one_hot n t ! j = 0"
  by (simp add: one_hot_def)

lemma categorical_Inr:
  "categorical y n = Inr a \<longleftrightarrow>
     (\<forall>t \<in> set y. t < n) \<and> a = \<lparr>rows = map (one_hot n) y, row_shape = [n]\<rparr>"
proof (cases "\<exists>t \<in> set y. n \<le> t")
  case True
  then have "\<not> (\<forall>t \<in> set y. t < n)" by (meson not_le)
  with True show ?thesis by (simp add: categorical_def)
next
  case False
  then have "\<forall>t \<in> set y. t < n" by (meson not_le)
  with False show ?thesis by (auto simp: categorical_def)
qed

text \<open>\<open>load_dataset\<close> returns exactly when the files load and every class index is below 133;
  a larger index ends it with the IndexError of \<open>to_categorical\<close>.\<close>

lemma load_dataset_Inr:
  "fst (load_dataset F path s) = Inr (files, targets) \<longleftrightarrow>
     (\<exists>data :: bunch. load_files F path = Inr data \<and> (\<forall>t \<in> set (target data). t < 133) \<and>
        files = np_array (filenames data) \<and>
        targets = \<lparr>rows = map (one_hot 133) (target data), row_shape = [133]\<rparr>)"
proof (cases "load_files F path")
  case (Inl e)
  then show ?thesis by (simp add: load_dataset_def Let_def)
next
  case (Inr data)
  show ?thesis
  proof (cases "categorical (target data) 133")
    case (Inl e)
    with categorical_Inr[of "target data" 133] have "\<not> (\<forall>t \<in> set (target data). t < 133)"
      by auto
    with Inl Inr show ?thesis
      by (simp add: load_dataset_def to_categorical_def Let_def)
  next
    case r: (Inr a)
    with categorical_Inr[of "target data" 133 a] Inr show ?thesis
      by (auto simp: load_dataset_def to_categorical_def Let_def)
  qed
qed

lemma load_dataset_IndexError:
  assumes "load_files F path = Inr data" and "t \<in> set (target data)" and "133 \<le> t"
  shows "fst (load_dataset F path s) = Inl IndexError"
proof -
  from assms(2,3) have "\<exists>t \<in> set (target data). 133 \<le> t" by blast
  with assms(1) show ?thesis
    by (simp add: load_dataset_def to_categorical_def categorical_def Let_def)
qed

text \<open>
  C4. For every dataset path, the targets that \<open>load_dataset\<close> returns are one-hot label
  vectors: the array has 133 columns, and every row has length 133 with one entry equal to 1
  and every other entry 0, whatever classes the \<^verbatim>\<open>Bunch\<close> of that path names. It returns
  them, one row per file, whenever the files load and every class index is below 133.
\<close>

theorem load_dataset_targets_one_hot:
  "(\<forall>files targets. fst (load_dataset F path s) = Inr (files, targets) \<longrightarrow>
      row_shape targets = [133] \<and>
      (\<forall>row \<in> set (rows targets). length row = 133 \<and>
         (\<exists>i<133. row ! i = 1 \<and> (\<forall>j<133. j \<noteq> i \<longrightarrow> row ! j = 0)))) \<and>
   (\<forall>data :: bunch. load_files F path = Inr data \<and> (\<forall>t \<in> set (target data). t < 133) \<longrightarrow>
      (\<exists>files targets. fst (load_dataset F path s) = Inr (files, targets) \<and>
         length (rows targets) = length (target data)))"
proof -
  have 1: "row_shape targets = [133] \<and>
         (\<forall>row \<in> set (rows targets). length row = 133 \<and>
            (\<exists>i<133. row ! i = 1 \<and> (\<forall>j<133. j \<noteq> i \<longrightarrow> row ! j = 0)))"
    if r: "fst (load_dataset F path s) = Inr (files, targets)" for files targets
  proof -
    from r obtain data :: bunch where d: "\<forall>t \<in> set (target data). t < 133"
      and t: "targets = \<lparr>rows = map (one_hot 133) (target data), row_shape = [133]\<rparr>"
      by (auto simp: load_dataset_Inr)
    have "length row = 133 \<and> (\<exists>i<133. row ! i = 1 \<and> (\<forall>j<133. j \<noteq> i \<longrightarrow> row ! j = 0))"
      if "row \<in> set (rows targets)" for row
    proof -
      from that t obtain c where c: "c \<in> set (target data)" and r: "row = one_hot 133 c"
        by auto
      from c d have "c < 133" by blast
      then show ?thesis
        unfolding r using one_hot_at[of c 133] one_hot_off[of _ 133 c] length_one_hot[of 133 c]
        by blast
    qed
    with t show ?thesis by simp
  qed
  have 2: "\<exists>files targets. fst (load_dataset F path s) = Inr (files, targets) \<and>
         length (rows targets) = length (target data)"
    if "load_files F path = Inr data" "\<forall>t \<in> set (target data). t < 133" for data :: bunch
  proof -
    from that have "fst (load_dataset F path s) =
        Inr (np_array (filenames data), \<lparr>rows = map (one_hot 133) (target data), row_shape = [133]\<rparr>)"
      unfolding load_dataset_Inr by blast
    then show ?thesis by simp
  qed
  from 1 2 show ?thesis by blast
qed

theorem load_dataset_targets_one_hot_witness:
  "load_files example_fs ''dogImages/train'' =
     Inr \<lparr>filenames = [''a.jpg'', ''b.jpg'', ''c.jpg''], target = [0, 1, 0],
          target_names = [''001.Affenpinscher'', ''002.Afghan_hound'']\<rparr> \<and>
   fst (load_dataset example_fs ''dogImages/train'' example_state) =
     Inr (np_array [''a.jpg'', ''b.jpg'', ''c.jpg''],
          \<lparr>rows = [one_hot 133 0, one_hot 133 1, one_hot 133 0], row_shape = [133]\<rparr>) \<and>
   length (one_hot 133 1) = 133"
proof -
  have l: "load_files example_fs ''dogImages/train'' =
     Inr \<lparr>filenames = [''a.jpg'', ''b.jpg'', ''c.jpg''], target = [0, 1, 0],
          target_names = [''001.Affenpinscher'', ''002.Afghan_hound'']\<rparr>"
    by (simp add: example_fs_def)
  have h: "fst (load_dataset example_fs ''dogImages/train'' example_state) =
     Inr (np_array [''a.jpg'', ''b.jpg'', ''c.jpg''],
          \<lparr>rows = [one_hot 133 0, one_hot 133 1, one_hot 133 0], row_shape = [133]\<rparr>)"
    by (simp add: load_dataset_def example_fs_def to_categorical_def categorical_def Let_def)
  note t = load_dataset_targets_one_hot[of example_fs "''dogImages/train''" example_state,
      THEN conjunct1, rule_format, OF h, THEN conjunct2]
  have "one_hot 133 1 \<in> set (rows \<lparr>rows = [one_hot 133 0, one_hot 133 1, one_hot 133 0],
      row_shape = [133]\<rparr>)"
    by simp
  from t[rule_format, OF this] have "length (one_hot 133 1) = 133" by (rule conjunct1)
  then show ?thesis by (intro conjI l h)
qed

section \<open>The concrete library at work\<close>

lemma str_lower_RMSprop: "str_lower ''RMSprop'' = ''rmsprop''"
  by (simp add: str_lower_def lower_char_def)

lemma example_state_simps:
  "layer_objs example_state = []" "model_objs example_state = []" "calls example_state = []"
  "entered example_state = []" "stdout example_state = []" "results example_state = []"
  "num_classes example_state = 2" "solvers example_state = [''sgd'']"
  "learning_rates example_state = [5 / 10 ^ 4, 1 / 10 ^ 3]"
  "row_shape (train_tensors example_state) = [224, 224, 3]"
  by (simp_all add: example_state_def)

lemma example_finetune:
  "create_finetune_model example_keras example_state =
     (Inr (Some 0),
      example_state\<lparr>entered := [''create_finetune_model''],
        layer_objs := [\<lparr>cls = Application_layer ''conv2d_1'', trainable = True\<rparr>,
                       \<lparr>cls = Application_layer ''mixed10'', trainable = True\<rparr>] @ built_head example_state,
        model_objs := [built_model (Some ''imagenet'') example_state
                        [\<lparr>cls = Application_layer ''conv2d_1'', trainable = True\<rparr>,
                         \<lparr>cls = Application_layer ''mixed10'', trainable = True\<rparr>]]\<rparr>)"
proof -
  have "InceptionV3 example_keras False (Some ''imagenet'') (row_shape (train_tensors example_state)) =
      Inr [\<lparr>cls = Application_layer ''conv2d_1'', trainable = True\<rparr>,
           \<lparr>cls = Application_layer ''mixed10'', trainable = True\<rparr>]"
    by (simp add: example_keras_def)
  from create_finetune_model_Inr[OF this] show ?thesis
    by (simp add: example_state_simps)
qed

lemma str_lower_sgd: "str_lower ''sgd'' = ''sgd''"
  by (simp add: str_lower_def lower_char_def)

lemma example_train_sgd:
  "fst (train example_keras 0 ''sgd'' lr (snd (create_finetune_model example_keras example_state))) =
     Inr (''sgd'', lr, \<lparr>object_id = 5, history = [(''val_loss'', [5, 4])]\<rparr>)"
  unfolding example_finetune
  by (simp add: train_def str_lower_sgd model_compile_def SGD_def model_fit_def enter_def
      example_keras_def built_head_def Let_def)


lemma example_InceptionV3:
  "InceptionV3 example_keras False w (row_shape (train_tensors example_state)) =
      Inr [\<lparr>cls = Application_layer ''conv2d_1'', trainable = True\<rparr>,
           \<lparr>cls = Application_layer ''mixed10'', trainable = True\<rparr>]"
  by (simp add: example_keras_def)

lemma example_cell_1: "fst (cell_1 example_fs example_state) = Inr ()"
  by (simp add: cell_1_def load_dataset_def example_fs_def to_categorical_def categorical_def Let_def)

lemma example_InceptionV3_any:
  "InceptionV3 example_keras with_top w shp =
      Inr [\<lparr>cls = Application_layer ''conv2d_1'', trainable = True\<rparr>,
           \<lparr>cls = Application_layer ''mixed10'', trainable = True\<rparr>]"
  by (simp add: example_keras_def)

lemma example_keras_simps:
  "optimizer_init example_keras opt =
     (if opt_class opt = ''Adam'' \<and> ''momentum'' \<in> set (map fst (kwargs opt))
      then Some TypeError else None)"
  "compile example_keras ls m opt l ms = None"
  "fit example_keras ls m a =
     (case compiled m of
        None \<Rightarrow> Inl RuntimeError
      | Some c \<Rightarrow> Inr \<lparr>object_id = length ls, history = [(''val_loss'', [5, 4])]\<rparr>)"
  by (simp_all add: example_keras_def)

lemma example_sweep_body:
  assumes "str_lower solver = ''sgd''"
  shows "fst (sweep_body example_keras solver lr s) = Inr ()"
  using assms
  by (simp add: sweep_body_def create_finetune_model_Inr[OF example_InceptionV3_any] train_def
      model_compile_def SGD_def model_fit_def enter_def print_def example_keras_simps Let_def)

lemma example_sweep: "fst (sweep example_keras example_state) = Inr ()"
proof -
  have 1: "fst (sweep_body example_keras ''sgd'' lr s) = Inr ()" for lr s
    by (rule example_sweep_body[OF str_lower_sgd])
  have 2: "fst (for_lr example_keras ''sgd'' [a, b] s) = Inr ()" for a b s
    using 1[of a s] 1[of b "snd (sweep_body example_keras ''sgd'' a s)"]
    by (auto split: prod.splits sum.splits)
  from 2[of "5 / 10 ^ 4" "1 / 10 ^ 3" "example_state\<lparr>results := []\<rparr>"]
  show ?thesis
    by (auto simp: sweep_def example_state_simps split: prod.splits sum.splits)
qed


lemma example_cell_7: "cell_7 example_keras example_state = sweep example_keras example_state"
  by (simp add: cell_7_def example_state_def)

section \<open>An unrecognised solver\<close>

text \<open>
  C5. \<open>train\<close> does not validate its solver argument and raises nothing of its own: for a
  solver whose lowercased name is none of \<open>sgd\<close>, \<open>nesterov\<close> and \<open>adam\<close>, no \<^verbatim>\<open>compile\<close>
  call is made, the model object is left as it was, the one library call is \<^verbatim>\<open>fit\<close>, and
  \<open>train\<close> fails exactly when that call fails, with the exception the library raised.
\<close>

theorem train_unknown_solver_goes_to_fit:
  assumes "str_lower solver \<noteq> ''sgd''" "str_lower solver \<noteq> ''nesterov''" "str_lower solver \<noteq> ''adam''"
  shows "calls (snd (train K m solver lr s)) = calls s @ [Fit_call m (fit_arguments s)] \<and>
         model_objs (snd (train K m solver lr s)) = model_objs s \<and>
         fst (train K m solver lr s) =
           (case fit K (layer_objs s) (model_objs s ! m) (fit_arguments s) of
              Inl e \<Rightarrow> Inl e
            | Inr h \<Rightarrow> Inr (solver, lr, h))"
  by (simp add: train_unknown[OF assms])

theorem train_unknown_solver_goes_to_fit_witness:
  "str_lower ''RMSprop'' \<noteq> ''sgd'' \<and> str_lower ''RMSprop'' \<noteq> ''nesterov'' \<and>
   str_lower ''RMSprop'' \<noteq> ''adam'' \<and>
   fst (train example_keras 0 ''RMSprop'' (1 / 10 ^ 3)
          (snd (create_finetune_model example_keras example_state))) = Inl RuntimeError \<and>
   calls (snd (train example_keras 0 ''RMSprop'' (1 / 10 ^ 3)
          (snd (create_finetune_model example_keras example_state)))) =
     [Fit_call 0 (fit_arguments example_state)]"
proof -
  have 1: "str_lower ''RMSprop'' \<noteq> ''sgd''" and 2: "str_lower ''RMSprop'' \<noteq> ''nesterov''"
    and 3: "str_lower ''RMSprop'' \<noteq> ''adam''"
    by (simp_all add: str_lower_RMSprop)
  have 4: "fit_arguments (snd (create_finetune_model example_keras example_state)) =
           fit_arguments example_state"
    by (simp add: example_finetune fit_arguments_def)
  have 5: "calls (snd (create_finetune_model example_keras example_state)) = []"
    by (simp add: example_finetune example_state_simps)
  have 6: "fit example_keras
       (layer_objs (snd (create_finetune_model example_keras example_state)))
       (model_objs (snd (create_finetune_model example_keras example_state)) ! 0)
       (fit_arguments example_state) = Inl RuntimeError"
    unfolding example_finetune by (simp add: example_keras_def built_model_def)
  from train_unknown_solver_goes_to_fit[OF 1 2 3, of example_keras 0 "1 / 10 ^ 3"
      "snd (create_finetune_model example_keras example_state)"]
  show ?thesis using 1 2 3 by (simp add: 4 5 6)
qed

section \<open>The data \<open>train\<close> fits on\<close>

text \<open>
  C9. Every call of \<open>train\<close> passes to \<^verbatim>\<open>fit\<close> the first 48 training tensors and targets
  and, as validation data, the first 20 validation tensors and targets: at most 48 and at
  most 20 rows, whatever the size of the loaded dataset. A call of \<open>train\<close> that returns has
  made that \<^verbatim>\<open>fit\<close> call.
\<close>

theorem train_fits_on_first_48_and_20:
  "\<exists>cs. calls (snd (train K m solver lr s)) = calls s @ cs \<and>
     (\<forall>m' a. Fit_call m' a \<in> set cs \<longrightarrow>
        rows (fit_x a) = take 48 (rows (train_tensors s)) \<and>
        rows (fit_y a) = take 48 (rows (train_targets s)) \<and>
        rows (fst (fit_validation_data a)) = take 20 (rows (valid_tensors s)) \<and>
        rows (snd (fit_validation_data a)) = take 20 (rows (valid_targets s)) \<and>
        length (rows (fit_x a)) \<le> 48 \<and> length (rows (fit_y a)) \<le> 48 \<and>
        length (rows (fst (fit_validation_data a))) \<le> 20 \<and>
        length (rows (snd (fit_validation_data a))) \<le> 20) \<and>
     (\<forall>r. fst (train K m solver lr s) = Inr r \<longrightarrow> Fit_call m (fit_arguments s) \<in> set cs)"
proof -
  from train_effect[of K m solver lr s] obtain cs mo where
    1: "snd (train K m solver lr s) = advance s [] [''train''] [] mo cs []"
    and 2: "\<forall>m' a. Fit_call m' a \<in> set cs \<longrightarrow> m' = m \<and> a = fit_arguments s"
    and 3: "\<forall>r. fst (train K m solver lr s) = Inr r \<longrightarrow> fit_models cs = [m]"
    by blast
  have 4: "Fit_call m (fit_arguments s) \<in> set cs" if "fit_models cs = [m]"
  proof -
    have "fit_models cs \<noteq> [] \<Longrightarrow> \<exists>m' a. Fit_call m' a \<in> set cs"
      by (induction cs rule: fit_models.induct) auto
    with that 2 show ?thesis by auto
  qed
  have 5: "rows (fit_x a) = take 48 (rows (train_tensors s)) \<and>
        rows (fit_y a) = take 48 (rows (train_targets s)) \<and>
        rows (fst (fit_validation_data a)) = take 20 (rows (valid_tensors s)) \<and>
        rows (snd (fit_validation_data a)) = take 20 (rows (valid_targets s)) \<and>
        length (rows (fit_x a)) \<le> 48 \<and> length (rows (fit_y a)) \<le> 48 \<and>
        length (rows (fst (fit_validation_data a))) \<le> 20 \<and>
        length (rows (snd (fit_validation_data a))) \<le> 20" if "a = fit_arguments s" for a
    using that by (simp add: fit_arguments_def slice_to_def)
  have A: "calls (snd (train K m solver lr s)) = calls s @ cs"
    by (simp add: 1 advance_simps)
  from 2 5 have B: "\<forall>m' a. Fit_call m' a \<in> set cs \<longrightarrow>
        rows (fit_x a) = take 48 (rows (train_tensors s)) \<and>
        rows (fit_y a) = take 48 (rows (train_targets s)) \<and>
        rows (fst (fit_validation_data a)) = take 20 (rows (valid_tensors s)) \<and>
        rows (snd (fit_validation_data a)) = take 20 (rows (valid_targets s)) \<and>
        length (rows (fit_x a)) \<le> 48 \<and> length (rows (fit_y a)) \<le> 48 \<and>
        length (rows (fst (fit_validation_data a))) \<le> 20 \<and>
        length (rows (snd (fit_validation_data a))) \<le> 20"
    by blast
  from 3 4 have C: "\<forall>r. fst (train K m solver lr s) = Inr r \<longrightarrow> Fit_call m (fit_arguments s) \<in> set cs"
    by blast
  from A B C show ?thesis by blast
qed

theorem train_fits_on_first_48_and_20_witness:
  "fst (train example_keras 0 ''sgd'' (1 / 10 ^ 3)
          (snd (create_finetune_model example_keras example_state))) =
     Inr (''sgd'', 1 / 10 ^ 3, \<lparr>object_id = 5, history = [(''val_loss'', [5, 4])]\<rparr>) \<and>
   Fit_call 0 (fit_arguments example_state) \<in>
     set (calls (snd (train example_keras 0 ''sgd'' (1 / 10 ^ 3)
          (snd (create_finetune_model example_keras example_state))))) \<and>
   length (rows (train_tensors example_state)) = 50 \<and>
   rows (fit_x (fit_arguments example_state)) = [0 ..< 48] \<and>
   length (rows (valid_tensors example_state)) = 25 \<and>
   rows (fst (fit_validation_data (fit_arguments example_state))) = [100 ..< 120]"
proof -
  define sF where "sF = snd (create_finetune_model example_keras example_state)"
  have fa: "fit_arguments sF = fit_arguments example_state"
    unfolding sF_def example_finetune by (simp add: fit_arguments_def)
  have c0: "calls sF = []"
    unfolding sF_def example_finetune by (simp add: example_state_simps)
  have tt: "train_tensors sF = train_tensors example_state" "valid_tensors sF = valid_tensors example_state"
    unfolding sF_def example_finetune by simp_all
  have r: "fst (train example_keras 0 ''sgd'' (1 / 10 ^ 3) sF) =
     Inr (''sgd'', 1 / 10 ^ 3, \<lparr>object_id = 5, history = [(''val_loss'', [5, 4])]\<rparr>)"
    unfolding sF_def by (rule example_train_sgd)
  from train_fits_on_first_48_and_20[of example_keras 0 "''sgd''" "1 / 10 ^ 3" sF] r
  obtain cs where cs: "calls (snd (train example_keras 0 ''sgd'' (1 / 10 ^ 3) sF)) = calls sF @ cs"
    and m: "Fit_call 0 (fit_arguments sF) \<in> set cs"
    and a: "rows (fit_x (fit_arguments sF)) = take 48 (rows (train_tensors sF))"
           "rows (fst (fit_validation_data (fit_arguments sF))) = take 20 (rows (valid_tensors sF))"
    by blast
  have e: "rows (train_tensors example_state) = [0 ..< 50]"
          "rows (valid_tensors example_state) = [100 ..< 125]"
    by (simp_all add: example_state_def)
  from cs m a r show ?thesis
    unfolding sF_def[symmetric] by (simp add: c0 fa tt e)
qed

section \<open>The frozen model\<close>

text \<open>
  C6. When \<open>create_frozen_model\<close> runs, the layers of its base model are the layer objects
  the \<^verbatim>\<open>InceptionV3\<close> call created, every one of them ends with \<open>trainable = False\<close>, and
  nothing else about any layer changes: each base layer keeps its class, the layer objects
  that existed before are untouched, and the three head layers remain as created.
\<close>

theorem create_frozen_model_freezes_base_only:
  assumes "InceptionV3 K False (Some ''imagenet'') (row_shape (train_tensors s)) = Inr ls"
  shows "layers (tensor_base (outputs (last (model_objs (snd (create_frozen_model K s)))))) =
           [length (layer_objs s) ..< length (layer_objs s) + length ls] \<and>
         (\<forall>a \<in> set (layers (tensor_base (outputs (last (model_objs (snd (create_frozen_model K s))))))).
            a < length (layer_objs (snd (create_frozen_model K s))) \<and>
            \<not> trainable (layer_objs (snd (create_frozen_model K s)) ! a) \<and>
            cls (layer_objs (snd (create_frozen_model K s)) ! a) = cls (ls ! (a - length (layer_objs s)))) \<and>
         layer_objs (snd (create_frozen_model K s)) =
           layer_objs s @ map (\<lambda>l. l\<lparr>trainable := False\<rparr>) ls @ built_head s"
proof -
  let ?s' = "snd (create_frozen_model K s)"
  have lo: "layer_objs ?s' = layer_objs s @ map (\<lambda>l. l\<lparr>trainable := False\<rparr>) ls @ built_head s"
    by (simp add: create_frozen_model_Inr[OF assms])
  have b: "tensor_base (outputs (last (model_objs ?s'))) = built_base (Some ''imagenet'') s ls"
    by (simp add: create_frozen_model_Inr[OF assms] built_model_def)
  have l: "layers (built_base (Some ''imagenet'') s ls) =
        [length (layer_objs s) ..< length (layer_objs s) + length ls]"
    by (simp add: built_base_def)
  have "a < length (layer_objs ?s') \<and> \<not> trainable (layer_objs ?s' ! a) \<and>
        cls (layer_objs ?s' ! a) = cls (ls ! (a - length (layer_objs s)))"
    if "a \<in> set [length (layer_objs s) ..< length (layer_objs s) + length ls]" for a
  proof -
    from that have 1: "length (layer_objs s) \<le> a" and 2: "a - length (layer_objs s) < length ls"
      by auto
    then show ?thesis unfolding lo by (simp add: nth_append)
  qed
  with lo b l show ?thesis by simp
qed


theorem create_frozen_model_freezes_base_only_witness:
  "InceptionV3 example_keras False (Some ''imagenet'') (row_shape (train_tensors example_state)) =
      Inr [\<lparr>cls = Application_layer ''conv2d_1'', trainable = True\<rparr>,
           \<lparr>cls = Application_layer ''mixed10'', trainable = True\<rparr>] \<and>
   layers (tensor_base (outputs (last (model_objs
      (snd (create_frozen_model example_keras example_state)))))) = [0, 1] \<and>
   layer_objs (snd (create_frozen_model example_keras example_state)) =
     [\<lparr>cls = Application_layer ''conv2d_1'', trainable = False\<rparr>,
      \<lparr>cls = Application_layer ''mixed10'', trainable = False\<rparr>,
      \<lparr>cls = GlobalAveragePooling2D, trainable = True\<rparr>,
      \<lparr>cls = Dense 512 ''relu'', trainable = True\<rparr>,
      \<lparr>cls = Dense 2 ''softmax'', trainable = True\<rparr>]"
  using create_frozen_model_freezes_base_only[OF example_InceptionV3[of "Some ''imagenet''"]]
    example_InceptionV3[of "Some ''imagenet''"]
  by (simp add: example_state_simps built_head_def upt_conv_Cons)

section \<open>The three builders compared\<close>

lemma head_classes_built:
  assumes "objs = layer_objs s @ ls' @ built_head s" and "length ls' = length ls"
  shows "head_classes objs (built_model w s ls) =
           [GlobalAveragePooling2D, Dense 512 ''relu'', Dense (num_classes s) ''softmax'']"
  using assms by (simp add: head_classes_def built_model_def built_head_def nth_append)

lemma built_model_base:
  "tensor_base (outputs (built_model w s ls)) = built_base w s ls"
  "inputs (built_model w s ls) = Input_of (built_base w s ls)"
  "include_top (built_base w s ls) = False"
  "weights (built_base w s ls) = w"
  "input_shape (built_base w s ls) = row_shape (train_tensors s)"
  "layers (built_base w s ls) = [length (layer_objs s) ..< length (layer_objs s) + length ls]"
  by (simp_all add: built_model_def built_base_def)

text \<open>
  C1, as the code has it. The three builders extend an \<^verbatim>\<open>InceptionV3\<close> base built with
  \<open>include_top=False\<close> over the input shape \<open>train_tensors.shape[1:]\<close> by the same head:
  GlobalAveragePooling2D, then Dense(512, relu), then Dense(num_classes, softmax).
  \<open>create_scratch_model\<close> builds its base with \<open>weights=None\<close>, the other two with
  \<open>weights='imagenet'\<close>; \<open>create_finetune_model\<close> and \<open>create_frozen_model\<close> build the same
  model object and differ only in that the latter sets \<open>trainable = False\<close> on the base layers.
\<close>

theorem builders_same_head_weights_and_freezing_differ:
  assumes "InceptionV3 K False None (row_shape (train_tensors s)) = Inr ls0"
      and "InceptionV3 K False (Some ''imagenet'') (row_shape (train_tensors s)) = Inr ls1"
  shows "(\<forall>B \<in> {create_scratch_model, create_finetune_model, create_frozen_model}.
            head_classes (layers_after B K s) (built_by B K s) =
              [GlobalAveragePooling2D, Dense 512 ''relu'', Dense (num_classes s) ''softmax''] \<and>
            inputs (built_by B K s) = Input_of (tensor_base (outputs (built_by B K s))) \<and>
            include_top (tensor_base (outputs (built_by B K s))) = False \<and>
            input_shape (tensor_base (outputs (built_by B K s))) = row_shape (train_tensors s)) \<and>
         weights (tensor_base (outputs (built_by create_scratch_model K s))) = None \<and>
         weights (tensor_base (outputs (built_by create_finetune_model K s))) = Some ''imagenet'' \<and>
         weights (tensor_base (outputs (built_by create_frozen_model K s))) = Some ''imagenet'' \<and>
         built_by create_frozen_model K s = built_by create_finetune_model K s \<and>
         layers_after create_scratch_model K s = layer_objs s @ ls0 @ built_head s \<and>
         layers_after create_finetune_model K s = layer_objs s @ ls1 @ built_head s \<and>
         layers_after create_frozen_model K s =
           layer_objs s @ map (\<lambda>l. l\<lparr>trainable := False\<rparr>) ls1 @ built_head s"
proof -
  have b: "built_by create_scratch_model K s = built_model None s ls0"
    "built_by create_finetune_model K s = built_model (Some ''imagenet'') s ls1"
    "built_by create_frozen_model K s = built_model (Some ''imagenet'') s ls1"
    by (simp_all add: built_by_def create_scratch_model_Inr[OF assms(1)]
        create_finetune_model_Inr[OF assms(2)] create_frozen_model_Inr[OF assms(2)])
  have l: "layers_after create_scratch_model K s = layer_objs s @ ls0 @ built_head s"
    "layers_after create_finetune_model K s = layer_objs s @ ls1 @ built_head s"
    "layers_after create_frozen_model K s =
       layer_objs s @ map (\<lambda>l. l\<lparr>trainable := False\<rparr>) ls1 @ built_head s"
    by (simp_all add: layers_after_def create_scratch_model_Inr[OF assms(1)]
        create_finetune_model_Inr[OF assms(2)] create_frozen_model_Inr[OF assms(2)])
  have h: "head_classes (layers_after create_scratch_model K s) (built_by create_scratch_model K s) =
          [GlobalAveragePooling2D, Dense 512 ''relu'', Dense (num_classes s) ''softmax'']"
      "head_classes (layers_after create_finetune_model K s) (built_by create_finetune_model K s) =
          [GlobalAveragePooling2D, Dense 512 ''relu'', Dense (num_classes s) ''softmax'']"
      "head_classes (layers_after create_frozen_model K s) (built_by create_frozen_model K s) =
          [GlobalAveragePooling2D, Dense 512 ''relu'', Dense (num_classes s) ''softmax'']"
    unfolding b l by (rule head_classes_built[OF refl]; simp)+
  show ?thesis
    unfolding ball_simps insert_iff using h l by (simp add: b built_model_base)
qed


theorem builders_same_head_weights_and_freezing_differ_witness:
  "InceptionV3 example_keras False None (row_shape (train_tensors example_state)) =
      Inr [\<lparr>cls = Application_layer ''conv2d_1'', trainable = True\<rparr>,
           \<lparr>cls = Application_layer ''mixed10'', trainable = True\<rparr>] \<and>
   InceptionV3 example_keras False (Some ''imagenet'') (row_shape (train_tensors example_state)) =
      Inr [\<lparr>cls = Application_layer ''conv2d_1'', trainable = True\<rparr>,
           \<lparr>cls = Application_layer ''mixed10'', trainable = True\<rparr>] \<and>
   head_classes (layers_after create_frozen_model example_keras example_state)
      (built_by create_frozen_model example_keras example_state) =
     [GlobalAveragePooling2D, Dense 512 ''relu'', Dense 2 ''softmax''] \<and>
   input_shape (tensor_base (outputs (built_by create_scratch_model example_keras example_state))) =
     [224, 224, 3] \<and>
   built_by create_frozen_model example_keras example_state =
     built_by create_finetune_model example_keras example_state \<and>
   map trainable (layers_after create_finetune_model example_keras example_state) =
     [True, True, True, True, True] \<and>
   map trainable (layers_after create_frozen_model example_keras example_state) =
     [False, False, True, True, True]"
proof -
  note t = builders_same_head_weights_and_freezing_differ
      [OF example_InceptionV3[of None] example_InceptionV3[of "Some ''imagenet''"]]
  from t have "head_classes (layers_after create_frozen_model example_keras example_state)
      (built_by create_frozen_model example_keras example_state) =
     [GlobalAveragePooling2D, Dense 512 ''relu'', Dense (num_classes example_state) ''softmax'']"
    by blast
  then have 1: "head_classes (layers_after create_frozen_model example_keras example_state)
      (built_by create_frozen_model example_keras example_state) =
     [GlobalAveragePooling2D, Dense 512 ''relu'', Dense 2 ''softmax'']"
    by (simp add: example_state_simps)
  from t have "input_shape (tensor_base (outputs
      (built_by create_scratch_model example_keras example_state))) =
      row_shape (train_tensors example_state)"
    by blast
  then have 2: "input_shape (tensor_base (outputs
      (built_by create_scratch_model example_keras example_state))) = [224, 224, 3]"
    by (simp add: example_state_simps)
  from t have 3: "built_by create_frozen_model example_keras example_state =
     built_by create_finetune_model example_keras example_state"
    by blast
  from t have "layers_after create_finetune_model example_keras example_state =
      layer_objs example_state @
        [\<lparr>cls = Application_layer ''conv2d_1'', trainable = True\<rparr>,
         \<lparr>cls = Application_layer ''mixed10'', trainable = True\<rparr>] @ built_head example_state"
    by blast
  then have 4: "map trainable (layers_after create_finetune_model example_keras example_state) =
     [True, True, True, True, True]"
    by (simp add: example_state_simps built_head_def)
  from t have "layers_after create_frozen_model example_keras example_state =
      layer_objs example_state @
        map (\<lambda>l. l\<lparr>trainable := False\<rparr>)
          [\<lparr>cls = Application_layer ''conv2d_1'', trainable = True\<rparr>,
           \<lparr>cls = Application_layer ''mixed10'', trainable = True\<rparr>] @ built_head example_state"
    by blast
  then have 5: "map trainable (layers_after create_frozen_model example_keras example_state) =
     [False, False, True, True, True]"
    by (simp add: example_state_simps built_head_def)
  from 1 2 3 4 5 example_InceptionV3[of None] example_InceptionV3[of "Some ''imagenet''"]
  show ?thesis by blast
qed

text \<open>
  C1 as stated fails: on the example library the scratch and the fine-tune model have the same
  trainable flags on every layer, yet they are different models, the scratch base being built
  with \<open>weights=None\<close> and not from the pretrained weights.
\<close>

theorem builders_differ_only_in_trainable_counterexample:
  "map trainable (layers_after create_scratch_model example_keras example_state) =
     map trainable (layers_after create_finetune_model example_keras example_state) \<and>
   weights (tensor_base (outputs (built_by create_scratch_model example_keras example_state))) = None \<and>
   weights (tensor_base (outputs (built_by create_finetune_model example_keras example_state))) =
     Some ''imagenet'' \<and>
   built_by create_scratch_model example_keras example_state \<noteq>
     built_by create_finetune_model example_keras example_state"
proof -
  have s: "create_scratch_model example_keras example_state =
     (Inr None,
      example_state\<lparr>entered := entered example_state @ [''create_scratch_model''],
        layer_objs := layer_objs example_state @
           [\<lparr>cls = Application_layer ''conv2d_1'', trainable = True\<rparr>,
            \<lparr>cls = Application_layer ''mixed10'', trainable = True\<rparr>] @ built_head example_state,
        model_objs := model_objs example_state @ [built_model None example_state
           [\<lparr>cls = Application_layer ''conv2d_1'', trainable = True\<rparr>,
            \<lparr>cls = Application_layer ''mixed10'', trainable = True\<rparr>]]\<rparr>)"
    by (rule create_scratch_model_Inr[OF example_InceptionV3])
  have w: "weights (tensor_base (outputs (built_by create_scratch_model example_keras example_state))) = None"
    "weights (tensor_base (outputs (built_by create_finetune_model example_keras example_state))) =
       Some ''imagenet''"
    unfolding built_by_def s example_finetune by (simp_all add: built_model_base)
  then have "built_by create_scratch_model example_keras example_state \<noteq>
     built_by create_finetune_model example_keras example_state"
    by auto
  moreover have "map trainable (layers_after create_scratch_model example_keras example_state) =
     map trainable (layers_after create_finetune_model example_keras example_state)"
    unfolding layers_after_def s example_finetune by (simp add: example_state_simps)
  ultimately show ?thesis using w by simp
qed


section \<open>Output width and target width\<close>

lemma load_dataset_snd: "snd (load_dataset F path s) = enter ''load_dataset'' s"
  by (simp add: load_dataset_def Let_def split: sum.splits)

lemma load_dataset_width:
  assumes "load_dataset F path s = (Inr (files, targets), s')"
  shows "row_shape targets = [133] \<and> (\<forall>row \<in> set (rows targets). length row = 133)"
proof -
  from assms have "fst (load_dataset F path s) = Inr (files, targets)" by simp
  then show ?thesis by (auto simp: load_dataset_Inr length_one_hot)
qed

lemma load_dataset_state_independent:
  "fst (load_dataset F path s) = fst (load_dataset F path t)"
  by (simp add: load_dataset_def Let_def split: sum.splits)

lemma cell_1_Inr:
  assumes "cell_1 F s0 = (Inr (), s)"
  shows "num_classes s = length (glob F ''dogImages/train/*/'') \<and>
         (\<forall>t \<in> {train_targets s, valid_targets s, test_targets s}.
            row_shape t = [133] \<and> (\<forall>row \<in> set (rows t). length row = 133))"
proof -
  define R1 where "R1 = fst (load_dataset F ''dogImages/train'' s0)"
  define R2 where "R2 = fst (load_dataset F ''dogImages/valid'' s0)"
  define R3 where "R3 = fst (load_dataset F ''dogImages/test'' s0)"
  have L1: "load_dataset F ''dogImages/train'' t = (R1, enter ''load_dataset'' t)" for t
    unfolding R1_def
    using load_dataset_state_independent[of F "''dogImages/train''" t s0]
      load_dataset_snd[of F "''dogImages/train''" t]
    by (metis prod.collapse)
  have L2: "load_dataset F ''dogImages/valid'' t = (R2, enter ''load_dataset'' t)" for t
    unfolding R2_def
    using load_dataset_state_independent[of F "''dogImages/valid''" t s0]
      load_dataset_snd[of F "''dogImages/valid''" t]
    by (metis prod.collapse)
  have L3: "load_dataset F ''dogImages/test'' t = (R3, enter ''load_dataset'' t)" for t
    unfolding R3_def
    using load_dataset_state_independent[of F "''dogImages/test''" t s0]
      load_dataset_snd[of F "''dogImages/test''" t]
    by (metis prod.collapse)
  from assms obtain f1 t1 where r1: "R1 = Inr (f1, t1)"
    by (cases R1) (auto simp: cell_1_def L1)
  from assms obtain f2 t2 where r2: "R2 = Inr (f2, t2)"
    by (cases R2) (auto simp: cell_1_def L1 L2 r1)
  from assms obtain f3 t3 where r3: "R3 = Inr (f3, t3)"
    by (cases R3) (auto simp: cell_1_def L1 L2 L3 r1 r2)
  from assms have s: "train_targets s = t1 \<and> valid_targets s = t2 \<and> test_targets s = t3 \<and>
      num_classes s = length (glob F ''dogImages/train/*/'')"
    by (auto simp: cell_1_def L1 L2 L3 r1 r2 r3 Let_def print_def enter_def)
  have w: "row_shape t1 = [133] \<and> (\<forall>row \<in> set (rows t1). length row = 133)"
    "row_shape t2 = [133] \<and> (\<forall>row \<in> set (rows t2). length row = 133)"
    "row_shape t3 = [133] \<and> (\<forall>row \<in> set (rows t3). length row = 133)"
    using load_dataset_width[OF L1[of s0, unfolded r1]] load_dataset_width[OF L2[of s0, unfolded r2]]
      load_dataset_width[OF L3[of s0, unfolded r3]]
    by blast+
  from s w show ?thesis by simp
qed


lemma output_units_built:
  assumes "length ls' = length ls"
  shows "output_units (layer_objs s @ ls' @ built_head s) (built_model w s ls) = Some (num_classes s)"
  using assms by (simp add: output_units_def built_model_def built_head_def nth_append)

lemma builder_output_units:
  assumes "B = create_scratch_model \<or> B = create_finetune_model \<or> B = create_frozen_model"
    and "fst (B K s) = Inr r"
  shows "output_units (layers_after B K s) (built_by B K s) = Some (num_classes s)"
proof -
  consider (scratch) "B = create_scratch_model" | (finetune) "B = create_finetune_model"
    | (frozen) "B = create_frozen_model"
    using assms(1) by blast
  then show ?thesis
  proof cases
    case scratch
    with assms(2) obtain ls where "InceptionV3 K False None (row_shape (train_tensors s)) = Inr ls"
      by (cases "InceptionV3 K False None (row_shape (train_tensors s))")
         (simp_all add: create_scratch_model_Inl)
    from create_scratch_model_Inr[OF this] show ?thesis
      unfolding scratch layers_after_def built_by_def
      by (simp add: output_units_built)
  next
    case finetune
    with assms(2) obtain ls where
      "InceptionV3 K False (Some ''imagenet'') (row_shape (train_tensors s)) = Inr ls"
      by (cases "InceptionV3 K False (Some ''imagenet'') (row_shape (train_tensors s))")
         (simp_all add: create_finetune_model_Inl)
    from create_finetune_model_Inr[OF this] show ?thesis
      unfolding finetune layers_after_def built_by_def
      by (simp add: output_units_built)
  next
    case frozen
    with assms(2) obtain ls where
      "InceptionV3 K False (Some ''imagenet'') (row_shape (train_tensors s)) = Inr ls"
      by (cases "InceptionV3 K False (Some ''imagenet'') (row_shape (train_tensors s))")
         (simp_all add: create_frozen_model_Inl)
    from create_frozen_model_Inr[OF this] show ?thesis
      unfolding frozen layers_after_def built_by_def
      by (simp add: output_units_built)
  qed
qed

text \<open>
  C7. Once cell 1 has run, \<open>num_classes\<close> is the number of directories that
  \<^verbatim>\<open>glob("dogImages/train/*/")\<close> lists, and every target array has rows of width 133. A builder
  that runs while \<open>num_classes\<close> holds that value gives its model an output layer of
  \<open>num_classes\<close> units. So the output width equals the target width exactly when 133 class
  directories are listed.
\<close>

theorem head_width_matches_targets_iff_133_classes:
  assumes "cell_1 F s0 = (Inr (), s1)" and "num_classes s = num_classes s1"
    and "B = create_scratch_model \<or> B = create_finetune_model \<or> B = create_frozen_model"
    and "fst (B K s) = Inr r"
  shows "output_units (layers_after B K s) (built_by B K s) =
           Some (length (glob F ''dogImages/train/*/'')) \<and>
         (\<forall>t \<in> {train_targets s1, valid_targets s1, test_targets s1}.
            row_shape t = [133] \<and> (\<forall>row \<in> set (rows t). length row = 133)) \<and>
         (output_units (layers_after B K s) (built_by B K s) = Some 133 \<longleftrightarrow>
            length (glob F ''dogImages/train/*/'') = 133)"
  using cell_1_Inr[OF assms(1)] builder_output_units[OF assms(3,4)] assms(2) by simp

theorem head_width_matches_targets_iff_133_classes_witness:
  "fst (cell_1 example_fs example_state) = Inr () \<and>
   fst (create_frozen_model example_keras (snd (cell_1 example_fs example_state))) = Inr None \<and>
   output_units
     (layers_after create_frozen_model example_keras (snd (cell_1 example_fs example_state)))
     (built_by create_frozen_model example_keras (snd (cell_1 example_fs example_state))) = Some 2 \<and>
   row_shape (train_targets (snd (cell_1 example_fs example_state))) = [133] \<and>
   output_units
     (layers_after create_frozen_model example_keras (snd (cell_1 example_fs example_state)))
     (built_by create_frozen_model example_keras (snd (cell_1 example_fs example_state))) \<noteq> Some 133"
proof -
  define S where "S = snd (cell_1 example_fs example_state)"
  have c: "cell_1 example_fs example_state = (Inr (), S)"
    unfolding S_def using example_cell_1 by (metis prod.collapse)
  have b: "fst (create_frozen_model example_keras S) = Inr None"
    by (simp add: create_frozen_model_Inr[OF example_InceptionV3_any])
  have g: "length (glob example_fs ''dogImages/train/*/'') = 2"
    by (simp add: example_fs_def)
  have d: "create_frozen_model = create_scratch_model \<or> create_frozen_model = create_finetune_model \<or>
      (create_frozen_model :: (string, nat) keras \<Rightarrow> _) = create_frozen_model"
    by simp
  have n: "num_classes S = num_classes S" by simp
  from head_width_matches_targets_iff_133_classes[of example_fs example_state S S
      create_frozen_model example_keras None, OF c n d b]
  show ?thesis unfolding S_def[symmetric] using example_cell_1 b g by simp
qed


section \<open>The sweep\<close>

lemma swept_results_reset: "swept K (s\<lparr>results := r\<rparr>) = swept K s"
  by (simp add: swept_def fit_arguments_def fun_eq_iff)

lemma sweep_effect:
  "\<exists>out ext lo mo cs rs.
     snd (sweep K s) = advance (s\<lparr>results := []\<rparr>) out ext lo mo cs rs \<and>
     set ext \<subseteq> {''create_finetune_model'', ''train''} \<and>
     (\<forall>m' a. Fit_call m' a \<in> set cs \<longrightarrow> a = fit_arguments s) \<and>
     (fst (sweep K s) = Inr () \<longrightarrow>
        swept K s (List.product (solvers s) (learning_rates s)) ext mo cs rs)"
proof -
  have "fit_arguments (s\<lparr>results := []\<rparr>) = fit_arguments s"
    by (simp add: fit_arguments_def)
  with for_solver_effect[of K "solvers s" "learning_rates s" "s\<lparr>results := []\<rparr>"]
  show ?thesis
    unfolding sweep_def swept_results_reset by simp
qed

text \<open>The notebook adds no failure of its own to the sweep: with a library whose calls do not
  raise, \<open>train\<close> returns and the sweep completes.\<close>

lemma train_completes:
  assumes "\<forall>opt. optimizer_init K opt = None"
    and "\<forall>ls m opt l ms. compile K ls m opt l ms = None"
    and "\<forall>ls m a. \<exists>h. fit K ls m a = Inr h"
  shows "\<exists>r. fst (train K m solver lr s) = Inr r"
proof -
  have c: "\<exists>s'. model_compile K m (SGD K kw) l ms t = (Inr (), s')"
          "\<exists>s'. model_compile K m (Adam K kw) l ms t = (Inr (), s')" for kw l ms t
    using assms(1,2) by (simp_all add: model_compile_def SGD_def Adam_def Let_def)
  have f: "\<exists>h. fst (model_fit K m a t) = Inr h" for a t
    using assms(3) by (simp add: model_fit_def)
  define step where "step =
        (if str_lower solver = ''sgd'' then
           model_compile K m (SGD K [(''lr'', FloatArg lr), (''momentum'', FloatArg 0.9)])
             ''categorical_crossentropy'' [''accuracy''] (enter ''train'' s)
         else if str_lower solver = ''nesterov'' then
           model_compile K m
             (SGD K [(''lr'', FloatArg lr), (''momentum'', FloatArg 0.9), (''nesterov'', BoolArg True)])
             ''categorical_crossentropy'' [''accuracy''] (enter ''train'' s)
         else if str_lower solver = ''adam'' then
           model_compile K m
             (Adam K [(''lr'', FloatArg lr), (''momentum'', FloatArg 0.9), (''beta_1'', FloatArg 0.9),
                      (''beta_2'', FloatArg 0.999), (''epsilon'', FloatArg (1 / 10 ^ 8))])
             ''categorical_crossentropy'' [''accuracy''] (enter ''train'' s)
         else (Inr (), enter ''train'' s))"
  have "\<exists>s'. step = (Inr (), s')"
    unfolding step_def using c by auto
  then obtain s' where s': "step = (Inr (), s')" by blast
  from f[of "fit_arguments s'" s'] obtain h where "fst (model_fit K m (fit_arguments s') s') = Inr h"
    by blast
  then have "fst (train K m solver lr s) = Inr (solver, lr, h)"
    using s' unfolding step_def
    by (cases "model_fit K m (fit_arguments s') s'") (simp add: train_def Let_def)
  then show ?thesis by blast
qed

lemma sweep_body_completes:
  assumes "\<forall>shp. \<exists>ls. InceptionV3 K False (Some ''imagenet'') shp = Inr ls"
    and "\<forall>opt. optimizer_init K opt = None"
    and "\<forall>ls m opt l ms. compile K ls m opt l ms = None"
    and "\<forall>ls m a. \<exists>h. fit K ls m a = Inr h"
  shows "fst (sweep_body K solver lr s) = Inr ()"
proof -
  define s1 where "s1 = print (Format ''Training %s with a learning rate of %f'' [PyStr solver, PyFloat lr]) s"
  from assms(1) obtain ls where "InceptionV3 K False (Some ''imagenet'') (row_shape (train_tensors s1)) = Inr ls"
    by blast
  from create_finetune_model_Inr[OF this] obtain m s2 where
    cf: "create_finetune_model K s1 = (Inr (Some m), s2)"
    by blast
  from train_completes[OF assms(2,3,4), of m solver lr s2] obtain r where
    "fst (train K m solver lr s2) = Inr r"
    by blast
  then show ?thesis
    using cf by (cases "train K m solver lr s2") (simp add: sweep_body_def s1_def Let_def)
qed

lemma sweep_completes:
  assumes "\<forall>shp. \<exists>ls. InceptionV3 K False (Some ''imagenet'') shp = Inr ls"
    and "\<forall>opt. optimizer_init K opt = None"
    and "\<forall>ls m opt l ms. compile K ls m opt l ms = None"
    and "\<forall>ls m a. \<exists>h. fit K ls m a = Inr h"
  shows "fst (sweep K s) = Inr ()"
proof -
  note b = sweep_body_completes[OF assms]
  have l: "fst (for_lr K solver lrs t) = Inr ()" for solver lrs t
  proof (induction lrs arbitrary: t)
    case Nil
    show ?case by simp
  next
    case (Cons lr lrs)
    from b[of solver lr t] Cons[of "snd (sweep_body K solver lr t)"] show ?case
      by (cases "sweep_body K solver lr t") simp
  qed
  have "fst (for_solver K svs lrs t) = Inr ()" for svs lrs t
  proof (induction svs arbitrary: t)
    case Nil
    show ?case by simp
  next
    case (Cons solver svs)
    from l[of solver lrs t] Cons[of "snd (for_lr K solver lrs t)"] show ?case
      by (cases "for_lr K solver lrs t") simp
  qed
  then show ?thesis by (simp add: sweep_def)
qed

text \<open>
  C3. A sweep that no library call ends with an exception covers every solver and learning
  rate pair in nested-loop order, solvers outside and learning rates inside: \<open>results\<close> holds
  one triple per pair, in that order, each with a \<^verbatim>\<open>History\<close> that \<^verbatim>\<open>fit\<close> returned, so its
  length is the product of the two lengths; one new model object was allocated per pair, and
  \<^verbatim>\<open>fit\<close> was called exactly once on each of them, in order.
\<close>

theorem sweep_covers_every_pair:
  assumes "fst (sweep K s) = Inr ()"
  shows "map (\<lambda>r. (fst r, fst (snd r))) (results (snd (sweep K s))) =
           concat (map (\<lambda>solver. map (\<lambda>lr. (solver, lr)) (learning_rates s)) (solvers s)) \<and>
         length (results (snd (sweep K s))) = length (solvers s) * length (learning_rates s) \<and>
         (\<forall>r \<in> set (results (snd (sweep K s))).
            \<exists>ls m. fit K ls m (fit_arguments s) = Inr (snd (snd r))) \<and>
         length (model_objs (snd (sweep K s))) =
           length (model_objs s) + length (solvers s) * length (learning_rates s) \<and>
         fit_models (drop (length (calls s)) (calls (snd (sweep K s)))) =
           [length (model_objs s) ..<
            length (model_objs s) + length (solvers s) * length (learning_rates s)]"
proof -
  from sweep_effect[of K s] assms obtain out ext lo mo cs rs where
    1: "snd (sweep K s) = advance (s\<lparr>results := []\<rparr>) out ext lo mo cs rs"
    and 2: "swept K s (List.product (solvers s) (learning_rates s)) ext mo cs rs"
    by blast
  have p: "List.product (solvers s) (learning_rates s) =
      concat (map (\<lambda>solver. map (\<lambda>lr. (solver, lr)) (learning_rates s)) (solvers s))"
    by (rule product_concat_map)
  have r: "results (snd (sweep K s)) = rs" "model_objs (snd (sweep K s)) = mo"
    "calls (snd (sweep K s)) = calls s @ cs"
    by (simp_all add: 1 advance_simps)
  from 2 have a: "map (\<lambda>r. (fst r, fst (snd r))) rs = List.product (solvers s) (learning_rates s)"
    and b: "length mo = length (model_objs s) + length (List.product (solvers s) (learning_rates s))"
    and c: "fit_models cs = [length (model_objs s) ..<
          length (model_objs s) + length (List.product (solvers s) (learning_rates s))]"
    and d: "list_all (\<lambda>r. \<exists>ls mm. fit K ls mm (fit_arguments s) = Inr (snd (snd r))) rs"
    by (simp_all add: swept_def)
  from a have e: "length rs = length (solvers s) * length (learning_rates s)"
    by (metis length_map length_product)
  from d have f: "\<forall>r \<in> set rs. \<exists>ls m. fit K ls m (fit_arguments s) = Inr (snd (snd r))"
    by (simp add: list_all_iff)
  from a b c e f show ?thesis
    unfolding r p[symmetric] by simp
qed

theorem sweep_covers_every_pair_witness:
  "fst (cell_7 example_keras example_state) = Inr () \<and>
   map (\<lambda>r. (fst r, fst (snd r))) (results (snd (cell_7 example_keras example_state))) =
     [(''sgd'', 5 / 10 ^ 4), (''sgd'', 1 / 10 ^ 3)] \<and>
   length (results (snd (cell_7 example_keras example_state))) = 2 \<and>
   fit_models (calls (snd (cell_7 example_keras example_state))) = [0, 1]"
  unfolding example_cell_7
  using sweep_covers_every_pair[OF example_sweep] example_sweep
  by (simp add: example_state_simps upt_conv_Cons)

section \<open>Which builder returns a model, and which one runs\<close>

lemma cell_1_entered:
  "\<exists>k. entered (snd (cell_1 F s)) = entered s @ replicate k ''load_dataset''"
proof -
  define R1 where "R1 = fst (load_dataset F ''dogImages/train'' s)"
  define R2 where "R2 = fst (load_dataset F ''dogImages/valid'' s)"
  define R3 where "R3 = fst (load_dataset F ''dogImages/test'' s)"
  have L1: "load_dataset F ''dogImages/train'' t = (R1, enter ''load_dataset'' t)" for t
    unfolding R1_def
    using load_dataset_state_independent[of F "''dogImages/train''" t s]
      load_dataset_snd[of F "''dogImages/train''" t]
    by (metis prod.collapse)
  have L2: "load_dataset F ''dogImages/valid'' t = (R2, enter ''load_dataset'' t)" for t
    unfolding R2_def
    using load_dataset_state_independent[of F "''dogImages/valid''" t s]
      load_dataset_snd[of F "''dogImages/valid''" t]
    by (metis prod.collapse)
  have L3: "load_dataset F ''dogImages/test'' t = (R3, enter ''load_dataset'' t)" for t
    unfolding R3_def
    using load_dataset_state_independent[of F "''dogImages/test''" t s]
      load_dataset_snd[of F "''dogImages/test''" t]
    by (metis prod.collapse)
  have "entered (snd (cell_1 F s)) = entered s @ replicate 1 ''load_dataset'' \<or>
        entered (snd (cell_1 F s)) = entered s @ replicate 2 ''load_dataset'' \<or>
        entered (snd (cell_1 F s)) = entered s @ replicate 3 ''load_dataset''"
    by (cases R1; cases R2; cases R3)
       (auto simp: cell_1_def L1 L2 L3 Let_def print_def enter_def numeral_2_eq_2 numeral_3_eq_3)
  then show ?thesis by blast
qed

text \<open>
  C2. \<open>create_scratch_model\<close> and \<open>create_frozen_model\<close> never return a model: each allocates
  its model object and returns \<^verbatim>\<open>None\<close>. \<open>create_finetune_model\<close> returns the model object it
  allocated. The sweep enters no notebook function but \<open>create_finetune_model\<close> and \<open>train\<close>, and
  a sweep that completes has entered each of them once per pair, in turn; cell 1 enters only
  \<open>load_dataset\<close> and cell 9 enters nothing.
\<close>

theorem only_finetune_builder_returns_and_is_called:
  "(\<forall>m. fst (create_scratch_model K s) \<noteq> Inr (Some m)) \<and>
   (\<forall>m. fst (create_frozen_model K s) \<noteq> Inr (Some m)) \<and>
   (\<forall>ls. InceptionV3 K False None (row_shape (train_tensors s)) = Inr ls \<longrightarrow>
      fst (create_scratch_model K s) = Inr None \<and>
      model_objs (snd (create_scratch_model K s)) = model_objs s @ [built_model None s ls]) \<and>
   (\<forall>ls. InceptionV3 K False (Some ''imagenet'') (row_shape (train_tensors s)) = Inr ls \<longrightarrow>
      fst (create_frozen_model K s) = Inr None \<and>
      model_objs (snd (create_frozen_model K s)) =
        model_objs s @ [built_model (Some ''imagenet'') s ls] \<and>
      fst (create_finetune_model K s) = Inr (Some (length (model_objs s))) \<and>
      model_objs (snd (create_finetune_model K s)) ! length (model_objs s) =
        built_model (Some ''imagenet'') s ls) \<and>
   (\<exists>ext. entered (snd (sweep K s)) = entered s @ ext \<and>
      set ext \<subseteq> {''create_finetune_model'', ''train''} \<and>
      (fst (sweep K s) = Inr () \<longrightarrow>
         ext = concat (replicate (length (solvers s) * length (learning_rates s))
                 [''create_finetune_model'', ''train'']))) \<and>
   (\<exists>k. entered (snd (cell_1 F s)) = entered s @ replicate k ''load_dataset'') \<and>
   entered (cell_9 s) = entered s"
proof -
  have 1: "fst (create_scratch_model K s) \<noteq> Inr (Some m)" for m
    by (cases "InceptionV3 K False None (row_shape (train_tensors s))")
       (simp_all add: create_scratch_model_Inl create_scratch_model_Inr)
  have 2: "fst (create_frozen_model K s) \<noteq> Inr (Some m)" for m
    by (cases "InceptionV3 K False (Some ''imagenet'') (row_shape (train_tensors s))")
       (simp_all add: create_frozen_model_Inl create_frozen_model_Inr)
  have 3: "fst (create_scratch_model K s) = Inr None \<and>
      model_objs (snd (create_scratch_model K s)) = model_objs s @ [built_model None s ls]"
    if "InceptionV3 K False None (row_shape (train_tensors s)) = Inr ls" for ls
    by (simp add: create_scratch_model_Inr[OF that])
  have 4: "fst (create_frozen_model K s) = Inr None \<and>
      model_objs (snd (create_frozen_model K s)) =
        model_objs s @ [built_model (Some ''imagenet'') s ls] \<and>
      fst (create_finetune_model K s) = Inr (Some (length (model_objs s))) \<and>
      model_objs (snd (create_finetune_model K s)) ! length (model_objs s) =
        built_model (Some ''imagenet'') s ls"
    if "InceptionV3 K False (Some ''imagenet'') (row_shape (train_tensors s)) = Inr ls" for ls
    by (simp add: create_frozen_model_Inr[OF that] create_finetune_model_Inr[OF that])
  from sweep_effect[of K s] obtain out ext lo mo cs rs where
    a: "snd (sweep K s) = advance (s\<lparr>results := []\<rparr>) out ext lo mo cs rs"
    and b: "set ext \<subseteq> {''create_finetune_model'', ''train''}"
    and c: "fst (sweep K s) = Inr () \<longrightarrow>
        swept K s (List.product (solvers s) (learning_rates s)) ext mo cs rs"
    by blast
  have 5: "\<exists>ext. entered (snd (sweep K s)) = entered s @ ext \<and>
      set ext \<subseteq> {''create_finetune_model'', ''train''} \<and>
      (fst (sweep K s) = Inr () \<longrightarrow>
         ext = concat (replicate (length (solvers s) * length (learning_rates s))
                 [''create_finetune_model'', ''train'']))"
    using b c by (intro exI[of _ ext]) (simp add: a advance_simps swept_def)
  have 6: "entered (cell_9 s) = entered s"
    by (simp add: cell_9_def print_def)
  from 1 2 3 4 5 6 cell_1_entered[of F s] show ?thesis by blast
qed

theorem only_finetune_builder_returns_and_is_called_witness:
  "fst (create_scratch_model example_keras example_state) = Inr None \<and>
   fst (create_frozen_model example_keras example_state) = Inr None \<and>
   fst (create_finetune_model example_keras example_state) = Inr (Some 0) \<and>
   fst (sweep example_keras example_state) = Inr () \<and>
   entered (snd (sweep example_keras example_state)) =
     [''create_finetune_model'', ''train'', ''create_finetune_model'', ''train'']"
proof -
  note t = only_finetune_builder_returns_and_is_called[of example_keras example_state example_fs]
  from t example_InceptionV3_any have 1: "fst (create_scratch_model example_keras example_state) = Inr None"
    by blast
  from t example_InceptionV3_any have 2: "fst (create_frozen_model example_keras example_state) = Inr None"
    by blast
  from t example_InceptionV3_any
  have "fst (create_finetune_model example_keras example_state) =
      Inr (Some (length (model_objs example_state)))"
    by blast
  then have 3: "fst (create_finetune_model example_keras example_state) = Inr (Some 0)"
    by (simp add: example_state_simps)
  from t example_sweep
  have "entered (snd (sweep example_keras example_state)) = entered example_state @
      concat (replicate (length (solvers example_state) * length (learning_rates example_state))
         [''create_finetune_model'', ''train''])"
    by auto
  then have 4: "entered (snd (sweep example_keras example_state)) =
     [''create_finetune_model'', ''train'', ''create_finetune_model'', ''train'']"
    by (simp add: example_state_simps numeral_2_eq_2)
  from 1 2 3 4 example_sweep show ?thesis by blast
qed


section \<open>The results cell\<close>

text \<open>
  C8, as the code has it. After the sweep the program prints \<open>results\<close>: one line, the list of
  the triples, each shown as its solver, its learning rate and the class and identity of its
  \<^verbatim>\<open>History\<close> object. Nothing else changes, and the line is the same for any two outcomes
  that agree on solvers, learning rates and \<^verbatim>\<open>History\<close> identities: the recorded validation
  losses are neither printed nor compared.
\<close>

theorem cell_9_prints_results_without_losses:
  "stdout (cell_9 s) =
     stdout s @
       [Repr (PyList (map (\<lambda>r. PyTuple [PyStr (fst r), PyFloat (fst (snd r)),
                                PyObject ''keras.callbacks.History'' (object_id (snd (snd r)))])
                  (results s)))] \<and>
   cell_9 s = s\<lparr>stdout := stdout (cell_9 s)\<rparr> \<and>
   (\<forall>t. stdout t = stdout s \<and> map shown (results t) = map shown (results s) \<longrightarrow>
      stdout (cell_9 t) = stdout (cell_9 s))"
proof -
  have r: "repr_result = (\<lambda>r. PyTuple [PyStr (fst r), PyFloat (fst (snd r)),
                                 PyObject ''keras.callbacks.History'' (object_id (snd (snd r)))])"
    by (auto simp: repr_result_def fun_eq_iff)
  have m: "map repr_result xs = map (\<lambda>x. case x of (a, b, c) \<Rightarrow>
       PyTuple [PyStr a, PyFloat b, PyObject ''keras.callbacks.History'' c]) (map shown xs)" for xs
    by (simp add: r shown_def)
  have 1: "stdout (cell_9 s) =
     stdout s @
       [Repr (PyList (map (\<lambda>r. PyTuple [PyStr (fst r), PyFloat (fst (snd r)),
                                PyObject ''keras.callbacks.History'' (object_id (snd (snd r)))])
                  (results s)))]"
    by (simp add: cell_9_def print_def r)
  have 2: "cell_9 s = s\<lparr>stdout := stdout (cell_9 s)\<rparr>"
    by (simp add: cell_9_def print_def)
  have 3: "\<forall>t. stdout t = stdout s \<and> map shown (results t) = map shown (results s) \<longrightarrow>
      stdout (cell_9 t) = stdout (cell_9 s)"
    by (simp add: cell_9_def print_def m)
  show ?thesis by (intro conjI 1 2 3)
qed

theorem cell_9_prints_results_without_losses_witness:
  "map shown example_results_swapped = map shown example_results \<and>
   stdout (cell_9 (example_state\<lparr>results := example_results_swapped\<rparr>)) =
     stdout (cell_9 (example_state\<lparr>results := example_results\<rparr>)) \<and>
   stdout (cell_9 (example_state\<lparr>results := example_results\<rparr>)) =
     [Repr (PyList [PyTuple [PyStr ''sgd'', PyFloat (5 / 10 ^ 4), PyObject ''keras.callbacks.History'' 5],
                    PyTuple [PyStr ''sgd'', PyFloat (1 / 10 ^ 3), PyObject ''keras.callbacks.History'' 10]])]"
proof -
  have 1: "map shown example_results_swapped = map shown example_results"
    by (simp add: example_results_def example_results_swapped_def shown_def)
  note t = cell_9_prints_results_without_losses[of "example_state\<lparr>results := example_results\<rparr>"]
  note c1 = t[THEN conjunct1]
  note c3 = t[THEN conjunct2, THEN conjunct2, THEN spec,
      of "example_state\<lparr>results := example_results_swapped\<rparr>", THEN mp]
  have 2: "stdout (cell_9 (example_state\<lparr>results := example_results_swapped\<rparr>)) =
     stdout (cell_9 (example_state\<lparr>results := example_results\<rparr>))"
    by (rule c3) (simp add: 1)
  have 3: "stdout (cell_9 (example_state\<lparr>results := example_results\<rparr>)) =
     [Repr (PyList [PyTuple [PyStr ''sgd'', PyFloat (5 / 10 ^ 4), PyObject ''keras.callbacks.History'' 5],
                    PyTuple [PyStr ''sgd'', PyFloat (1 / 10 ^ 3), PyObject ''keras.callbacks.History'' 10]])]"
    unfolding c1 by (simp add: example_results_def example_state_simps)
  show ?thesis by (intro conjI 1 2 3)
qed

text \<open>
  C8 as stated fails: two outcomes of the sweep whose recorded validation losses are exchanged
  between the two configurations make the cell print the same line.
\<close>

theorem cell_9_compares_losses_counterexample:
  "map_of (history (snd (snd (example_results ! 0)))) ''val_loss'' = Some [5184 / 1000, 51333 / 10000] \<and>
   map_of (history (snd (snd (example_results ! 1)))) ''val_loss'' = Some [55274 / 10000, 556 / 100] \<and>
   map_of (history (snd (snd (example_results_swapped ! 0)))) ''val_loss'' = Some [55274 / 10000, 556 / 100] \<and>
   map_of (history (snd (snd (example_results_swapped ! 1)))) ''val_loss'' = Some [5184 / 1000, 51333 / 10000] \<and>
   stdout (cell_9 (example_state\<lparr>results := example_results\<rparr>)) =
     [Repr (PyList [PyTuple [PyStr ''sgd'', PyFloat (5 / 10 ^ 4), PyObject ''keras.callbacks.History'' 5],
                    PyTuple [PyStr ''sgd'', PyFloat (1 / 10 ^ 3), PyObject ''keras.callbacks.History'' 10]])] \<and>
   stdout (cell_9 (example_state\<lparr>results := example_results_swapped\<rparr>)) =
     [Repr (PyList [PyTuple [PyStr ''sgd'', PyFloat (5 / 10 ^ 4), PyObject ''keras.callbacks.History'' 5],
                    PyTuple [PyStr ''sgd'', PyFloat (1 / 10 ^ 3), PyObject ''keras.callbacks.History'' 10]])]"
proof -
  have 1: "stdout (cell_9 (example_state\<lparr>results := example_results\<rparr>)) =
     [Repr (PyList [PyTuple [PyStr ''sgd'', PyFloat (5 / 10 ^ 4), PyObject ''keras.callbacks.History'' 5],
                    PyTuple [PyStr ''sgd'', PyFloat (1 / 10 ^ 3), PyObject ''keras.callbacks.History'' 10]])]"
    by (simp add: example_results_def cell_9_def print_def repr_result_def example_state_simps)
  have 2: "stdout (cell_9 (example_state\<lparr>results := example_results_swapped\<rparr>)) =
     [Repr (PyList [PyTuple [PyStr ''sgd'', PyFloat (5 / 10 ^ 4), PyObject ''keras.callbacks.History'' 5],
                    PyTuple [PyStr ''sgd'', PyFloat (1 / 10 ^ 3), PyObject ''keras.callbacks.History'' 10]])]"
    by (simp add: example_results_swapped_def cell_9_def print_def repr_result_def example_state_simps)
  have 3: "map_of (history (snd (snd (example_results ! 0)))) ''val_loss'' = Some [5184 / 1000, 51333 / 10000]"
    "map_of (history (snd (snd (example_results ! 1)))) ''val_loss'' = Some [55274 / 10000, 556 / 100]"
    by (simp_all add: example_results_def)
  have 4: "map_of (history (snd (snd (example_results_swapped ! 0)))) ''val_loss'' = Some [55274 / 10000, 556 / 100]"
    "map_of (history (snd (snd (example_results_swapped ! 1)))) ''val_loss'' = Some [5184 / 1000, 51333 / 10000]"
    by (simp_all add: example_results_swapped_def)
  show ?thesis by (intro conjI 1 2 3 4)
qed


end
